theory Spec2Isabelle
  imports Main "HOL-Library.Word"
begin

unbundle bit_operations_syntax

section \<open>Machine types\<close>

type_synonym u8 = "8 word"
type_synonym u16 = "16 word"
type_synonym u32 = "32 word"

text \<open>
  Pointers into the message RAM (\<^verbatim>\<open>uint32_t *\<close>) are 32-bit byte addresses; \<^verbatim>\<open>NULL\<close> is
  address 0 and \<^verbatim>\<open>&p[k]\<close> on a \<^verbatim>\<open>uint32_t *\<close> is \<open>p + 4 * k\<close>.
\<close>

type_synonym addr = u32

definition NULL :: addr where
  "NULL = 0"

section \<open>Enumerations of Mcan.h\<close>

datatype Mcan_ErrorCode =
    Mcan_ErrorCode_InvalidRxFifoId
  | Mcan_ErrorCode_RxFifoEmpty
  | Mcan_ErrorCode_TxFifoFull
  | Mcan_ErrorCode_TxEventFifoEmpty
  | Mcan_ErrorCode_InitializationStartTimeout
  | Mcan_ErrorCode_ClockStopRequestTimeout
  | Mcan_ErrorCode_IndexOutOfRange
  | Mcan_ErrorCode_ElementSizeInvalid
  | Mcan_ErrorCode_ModeInvalid

datatype Mcan_RxFifoId = Mcan_RxFifoId_0 | Mcan_RxFifoId_1

datatype Mcan_Mode =
    Mcan_Mode_Normal
  | Mcan_Mode_AutomaticRetransmissionDisabled
  | Mcan_Mode_Restricted
  | Mcan_Mode_BusMonitoring
  | Mcan_Mode_PowerDown
  | Mcan_Mode_InternalLoopBackTest
  | Mcan_Mode_Invalid

datatype Mcan_TimestampClk =
  Mcan_TimestampClk_None | Mcan_TimestampClk_Internal | Mcan_TimestampClk_External

fun Mcan_TimestampClk_val :: "Mcan_TimestampClk \<Rightarrow> u32" where
  "Mcan_TimestampClk_val Mcan_TimestampClk_None = 0"
| "Mcan_TimestampClk_val Mcan_TimestampClk_Internal = 1"
| "Mcan_TimestampClk_val Mcan_TimestampClk_External = 2"

datatype Mcan_TimeoutType =
    Mcan_TimeoutType_Continuous
  | Mcan_TimeoutType_TxEventFifo
  | Mcan_TimeoutType_RxFifo0
  | Mcan_TimeoutType_RxFifo1

fun Mcan_TimeoutType_val :: "Mcan_TimeoutType \<Rightarrow> u32" where
  "Mcan_TimeoutType_val Mcan_TimeoutType_Continuous = 0"
| "Mcan_TimeoutType_val Mcan_TimeoutType_TxEventFifo = 1"
| "Mcan_TimeoutType_val Mcan_TimeoutType_RxFifo0 = 2"
| "Mcan_TimeoutType_val Mcan_TimeoutType_RxFifo1 = 3"

datatype Mcan_NonMatchingPolicy =
    Mcan_NonMatchingPolicy_RxFifo0
  | Mcan_NonMatchingPolicy_RxFifo1
  | Mcan_NonMatchingPolicy_Rejected

fun Mcan_NonMatchingPolicy_val :: "Mcan_NonMatchingPolicy \<Rightarrow> u32" where
  "Mcan_NonMatchingPolicy_val Mcan_NonMatchingPolicy_RxFifo0 = 0"
| "Mcan_NonMatchingPolicy_val Mcan_NonMatchingPolicy_RxFifo1 = 1"
| "Mcan_NonMatchingPolicy_val Mcan_NonMatchingPolicy_Rejected = 2"

datatype Mcan_ElementSize =
    Mcan_ElementSize_8
  | Mcan_ElementSize_12
  | Mcan_ElementSize_16
  | Mcan_ElementSize_20
  | Mcan_ElementSize_24
  | Mcan_ElementSize_32
  | Mcan_ElementSize_48
  | Mcan_ElementSize_64
  | Mcan_ElementSize_Invalid

fun Mcan_ElementSize_val :: "Mcan_ElementSize \<Rightarrow> u32" where
  "Mcan_ElementSize_val Mcan_ElementSize_8 = 0"
| "Mcan_ElementSize_val Mcan_ElementSize_12 = 1"
| "Mcan_ElementSize_val Mcan_ElementSize_16 = 2"
| "Mcan_ElementSize_val Mcan_ElementSize_20 = 3"
| "Mcan_ElementSize_val Mcan_ElementSize_24 = 4"
| "Mcan_ElementSize_val Mcan_ElementSize_32 = 5"
| "Mcan_ElementSize_val Mcan_ElementSize_48 = 6"
| "Mcan_ElementSize_val Mcan_ElementSize_64 = 7"
| "Mcan_ElementSize_val Mcan_ElementSize_Invalid = 8"

text \<open>
  \<^verbatim>\<open>Mcan_DataLengthCode\<close> and \<^verbatim>\<open>Mcan_DataLengthRaw\<close> are enumerations whose values the driver
  compares and converts as \<^verbatim>\<open>uint8_t\<close>; every call site passes a \<^verbatim>\<open>uint8_t\<close>. They are
  modelled by their 8-bit values.
\<close>

type_synonym Mcan_DataLengthCode = u8
type_synonym Mcan_DataLengthRaw = u8

definition Mcan_DataLengthCode_12 :: Mcan_DataLengthCode where "Mcan_DataLengthCode_12 = 9"
definition Mcan_DataLengthCode_16 :: Mcan_DataLengthCode where "Mcan_DataLengthCode_16 = 10"
definition Mcan_DataLengthCode_20 :: Mcan_DataLengthCode where "Mcan_DataLengthCode_20 = 11"
definition Mcan_DataLengthCode_24 :: Mcan_DataLengthCode where "Mcan_DataLengthCode_24 = 12"
definition Mcan_DataLengthCode_32 :: Mcan_DataLengthCode where "Mcan_DataLengthCode_32 = 13"
definition Mcan_DataLengthCode_48 :: Mcan_DataLengthCode where "Mcan_DataLengthCode_48 = 14"
definition Mcan_DataLengthCode_64 :: Mcan_DataLengthCode where "Mcan_DataLengthCode_64 = 15"
definition Mcan_DataLengthCode_Invalid :: Mcan_DataLengthCode where
  "Mcan_DataLengthCode_Invalid = 0xf7"

definition Mcan_DataLengthRaw_8 :: Mcan_DataLengthRaw where "Mcan_DataLengthRaw_8 = 8"
definition Mcan_DataLengthRaw_12 :: Mcan_DataLengthRaw where "Mcan_DataLengthRaw_12 = 12"
definition Mcan_DataLengthRaw_16 :: Mcan_DataLengthRaw where "Mcan_DataLengthRaw_16 = 16"
definition Mcan_DataLengthRaw_20 :: Mcan_DataLengthRaw where "Mcan_DataLengthRaw_20 = 20"
definition Mcan_DataLengthRaw_24 :: Mcan_DataLengthRaw where "Mcan_DataLengthRaw_24 = 24"
definition Mcan_DataLengthRaw_32 :: Mcan_DataLengthRaw where "Mcan_DataLengthRaw_32 = 32"
definition Mcan_DataLengthRaw_48 :: Mcan_DataLengthRaw where "Mcan_DataLengthRaw_48 = 48"
definition Mcan_DataLengthRaw_64 :: Mcan_DataLengthRaw where "Mcan_DataLengthRaw_64 = 64"
definition Mcan_DataLengthRaw_Invalid :: Mcan_DataLengthRaw where
  "Mcan_DataLengthRaw_Invalid = 0xf7"

datatype Mcan_RxFifoOperationMode =
  Mcan_RxFifoOperationMode_Blocking | Mcan_RxFifoOperationMode_Overwrite

fun Mcan_RxFifoOperationMode_val :: "Mcan_RxFifoOperationMode \<Rightarrow> u32" where
  "Mcan_RxFifoOperationMode_val Mcan_RxFifoOperationMode_Blocking = 0"
| "Mcan_RxFifoOperationMode_val Mcan_RxFifoOperationMode_Overwrite = 1"

datatype Mcan_TxQueueType = Mcan_TxQueueType_Fifo | Mcan_TxQueueType_Id

fun Mcan_TxQueueType_val :: "Mcan_TxQueueType \<Rightarrow> u32" where
  "Mcan_TxQueueType_val Mcan_TxQueueType_Fifo = 0"
| "Mcan_TxQueueType_val Mcan_TxQueueType_Id = 1"

datatype Mcan_InterruptLine = Mcan_InterruptLine_0 | Mcan_InterruptLine_1

datatype Mcan_ElementEsi = Mcan_ElementEsi_Dominant | Mcan_ElementEsi_Recessive

fun Mcan_ElementEsi_val :: "Mcan_ElementEsi \<Rightarrow> u32" where
  "Mcan_ElementEsi_val Mcan_ElementEsi_Dominant = 0"
| "Mcan_ElementEsi_val Mcan_ElementEsi_Recessive = 1"

datatype Mcan_IdType = Mcan_IdType_Standard | Mcan_IdType_Extended

fun Mcan_IdType_val :: "Mcan_IdType \<Rightarrow> u32" where
  "Mcan_IdType_val Mcan_IdType_Standard = 0"
| "Mcan_IdType_val Mcan_IdType_Extended = 1"

datatype Mcan_FrameType = Mcan_FrameType_Data | Mcan_FrameType_Remote

fun Mcan_FrameType_val :: "Mcan_FrameType \<Rightarrow> u32" where
  "Mcan_FrameType_val Mcan_FrameType_Data = 0"
| "Mcan_FrameType_val Mcan_FrameType_Remote = 1"

text \<open>The interrupt sources, whose enumeration value is the bit index in IR, IE and ILS.\<close>

definition Mcan_Interrupt_Reserved1 :: nat where "Mcan_Interrupt_Reserved1 = 20"
definition Mcan_Interrupt_Reserved2 :: nat where "Mcan_Interrupt_Reserved2 = 21"
definition Mcan_Interrupt_Count :: nat where "Mcan_Interrupt_Count = 30"


section \<open>Registers and their bit fields\<close>

text \<open>
  The registers the driver accesses: the members of \<^verbatim>\<open>Mcan_BaseRegisters\<close> reached through
  \<^verbatim>\<open>mcan->reg.base\<close>, and the chip-configuration register behind \<^verbatim>\<open>mcan->reg.canDmaBase\<close>.
\<close>

datatype reg =
    CANDMABA
  | CCCR | TEST | NBTP | DBTP | TDCR | TSCC | TSCV | TOCC
  | GFC | SIDFC | XIDFC | XIDAM
  | RXESC | RXF0C | RXF0S | RXF0A | RXF1C | RXF1S | RXF1A | RXBC
  | TXBC | TXESC | TXFQS | TXBAR | TXBTIE | TXBCIE | TXEFC
  | IR | IE | ILS | ILE | RWD

text \<open>
  A bit field is referred to by its name: for a field \<^verbatim>\<open>F\<close> the macros of Bits.h paste the
  tokens \<^verbatim>\<open>F_MASK\<close> and \<^verbatim>\<open>F_OFFSET\<close>, and the element accessors use \<^verbatim>\<open>F_WORD\<close>.

  McanRegisters.h, which defines these constants, is not among the sources. The driver is
  therefore modelled over an arbitrary register layout: every constant of that header
  the modelled functions use is a component of \<open>Mcan_Layout\<close>, and every theorem below
  holds for all layouts unless it names a constraint.
\<close>

type_synonym field = string

record Mcan_Layout =
  MASK :: "field \<Rightarrow> u32"
  OFFSET :: "field \<Rightarrow> nat"
  WORD :: "field \<Rightarrow> u32"
  MCAN_TXELEMENT_DATA_WORD :: u32
  MCAN_RXELEMENT_DATA_WORD :: u32
  MCAN_TXELEMENT_SIZE_INVALID :: u32
  MCAN_DLC_INVALID :: u32

section \<open>Hardware, trace and memory\<close>

text \<open>
  Registers are volatile: what a read returns is decided by the device, not by the last
  write. The device is a state machine of an arbitrary state type \<open>'h\<close>; a read returns a
  value and the device's next state, a write gives the next state. Every access the
  driver makes is appended to a trace, so that the number and the order of accesses can
  be stated.
\<close>

record 'h Mcan_Env = Mcan_Layout +
  hw_read :: "reg \<Rightarrow> 'h \<Rightarrow> u32 \<times> 'h"
  hw_write :: "reg \<Rightarrow> u32 \<Rightarrow> 'h \<Rightarrow> 'h"

datatype event = Rd reg u32 | Wr reg u32

section \<open>The device descriptor (struct Mcan)\<close>

record Mcan_Tx =
  Tx_bufferAddress :: addr
  Tx_bufferSize :: u8
  Tx_queueAddress :: addr
  Tx_queueSize :: u8
  Tx_elementSize :: u8

record Mcan_RxFifo =
  RxFifo_address :: addr
  RxFifo_size :: u8
  RxFifo_elementSize :: u8

text \<open>
  The member \<^verbatim>\<open>reg\<close> of the descriptor is the pair of register pointers; the registers it
  points to are the device of the environment.
\<close>

record Mcan =
  msgRamBaseAddress :: addr
  tx :: Mcan_Tx
  rxBufferAddress :: addr
  rxBufferElementSize :: u8
  rxFifo0 :: Mcan_RxFifo
  rxFifo1 :: Mcan_RxFifo
  txEventFifoAddress :: addr
  txEventFifoSize :: u8
  rxStdFilterAddress :: addr
  rxStdFilterSize :: u8
  rxExtFilterAddress :: addr
  rxExtFilterSize :: u8

text \<open>
  The state a driver call works on: the device behind the registers, the trace of register
  accesses made so far, the message RAM as byte-addressed memory, and the descriptor.
\<close>

record 'h world =
  dev :: 'h
  trace :: "event list"
  ram :: "addr \<Rightarrow> u8"
  mcan :: Mcan

section \<open>The configuration descriptor (struct Mcan-Config)\<close>

record Mcan_BitTiming =
  bitRatePrescaler :: u16
  synchronizationJump :: u8
  timeSegmentAfterSamplePoint :: u8
  timeSegmentBeforeSamplePoint :: u8

record Mcan_TransmitterDelayCompensation =
  Tdc_isEnabled :: bool
  Tdc_filter :: u8
  Tdc_offset :: u8

record Mcan_TimeoutConfig =
  Timeout_isEnabled :: bool
  Timeout_type :: Mcan_TimeoutType
  Timeout_period :: u16

record Mcan_IdFilter =
  isIdRejected :: bool
  nonMatchingPolicy :: Mcan_NonMatchingPolicy
  filterListAddress :: addr
  filterListSize :: u8

record Mcan_RxFifoConfig =
  RxFifoConfig_isEnabled :: bool
  RxFifoConfig_startAddress :: addr
  RxFifoConfig_size :: u8
  RxFifoConfig_watermark :: u8
  RxFifoConfig_mode :: Mcan_RxFifoOperationMode
  RxFifoConfig_elementSize :: Mcan_ElementSize

record Mcan_RxBufferConfig =
  RxBufferConfig_startAddress :: addr
  RxBufferConfig_elementSize :: Mcan_ElementSize

record Mcan_TxBufferConfig =
  TxBufferConfig_isEnabled :: bool
  TxBufferConfig_startAddress :: addr
  TxBufferConfig_bufferSize :: u8
  TxBufferConfig_queueSize :: u8
  TxBufferConfig_queueType :: Mcan_TxQueueType
  TxBufferConfig_elementSize :: Mcan_ElementSize

record Mcan_TxEventFifoConfig =
  TxEventFifoConfig_isEnabled :: bool
  TxEventFifoConfig_startAddress :: addr
  TxEventFifoConfig_size :: u8
  TxEventFifoConfig_watermark :: u8

record Mcan_InterruptConfig =
  Interrupt_isEnabled :: bool
  Interrupt_line :: Mcan_InterruptLine

text \<open>
  The array \<^verbatim>\<open>interrupts[Mcan_Interrupt_Count]\<close> is a function of the index; the driver
  reads it at indices below \<open>Mcan_Interrupt_Count\<close> only.
\<close>

record Mcan_Config =
  Config_msgRamBaseAddress :: addr
  Config_mode :: Mcan_Mode
  Config_isFdEnabled :: bool
  Config_nominalBitTiming :: Mcan_BitTiming
  Config_dataBitTiming :: Mcan_BitTiming
  Config_transmitterDelayCompensation :: Mcan_TransmitterDelayCompensation
  Config_timestampClk :: Mcan_TimestampClk
  Config_timestampTimeoutPrescaler :: u8
  Config_timeout :: Mcan_TimeoutConfig
  Config_standardIdFilter :: Mcan_IdFilter
  Config_extendedIdFilter :: Mcan_IdFilter
  Config_rxFifo0 :: Mcan_RxFifoConfig
  Config_rxFifo1 :: Mcan_RxFifoConfig
  Config_rxBuffer :: Mcan_RxBufferConfig
  Config_txBuffer :: Mcan_TxBufferConfig
  Config_txEventFifo :: Mcan_TxEventFifoConfig
  Config_interrupts :: "nat \<Rightarrow> Mcan_InterruptConfig"
  Config_isLine0InterruptEnabled :: bool
  Config_isLine1InterruptEnabled :: bool
  Config_wdtCounter :: u8

section \<open>Frame descriptors\<close>

text \<open>
  \<^verbatim>\<open>data\<close> of a Tx element points to the caller's payload bytes; the model holds the bytes
  behind the pointer as a function of the offset.
\<close>

record Mcan_TxElement =
  TxElement_esiFlag :: Mcan_ElementEsi
  TxElement_idType :: Mcan_IdType
  TxElement_frameType :: Mcan_FrameType
  TxElement_id :: u32
  TxElement_marker :: u8
  TxElement_isTxEventStored :: bool
  TxElement_isCanFdFormatEnabled :: bool
  TxElement_isBitRateSwitchingEnabled :: bool
  TxElement_dataSize :: u8
  TxElement_data :: "nat \<Rightarrow> u8"
  TxElement_isInterruptEnabled :: bool

text \<open>
  An Rx element is filled from the message RAM: its enumeration members hold the raw
  field values read there, and \<^verbatim>\<open>data\<close> holds the \<^verbatim>\<open>dataSize\<close> bytes copied out.
\<close>

record Mcan_RxElement =
  RxElement_esiFlag :: u32
  RxElement_idType :: u32
  RxElement_frameType :: u32
  RxElement_id :: u32
  RxElement_isNonMatchingFrame :: bool
  RxElement_filterIndex :: u8
  RxElement_isCanFdFormatEnabled :: bool
  RxElement_isBitRateSwitchingEnabled :: bool
  RxElement_timestamp :: u16
  RxElement_dataSize :: u8
  RxElement_data :: "u8 list"

record Mcan_InterruptStatus =
  hasRf0nOccurred :: bool
  hasRf0wOccurred :: bool
  hasRf0fOccurred :: bool
  hasRf0lOccurred :: bool
  hasRf1nOccurred :: bool
  hasRf1wOccurred :: bool
  hasRf1fOccurred :: bool
  hasRf1lOccurred :: bool
  hasHpmOccurred :: bool
  hasTcOccurred :: bool
  hasTcfOccurred :: bool
  hasTfeOccurred :: bool
  hasTefnOccurred :: bool
  hasTefwOccurred :: bool
  hasTeffOccurred :: bool
  hasTeflOccurred :: bool
  hasTswOccurred :: bool
  hasMrafOccurred :: bool
  hasTooOccurred :: bool
  hasDrxOccurred :: bool
  hasEloOccurred :: bool
  hasEpOccurred :: bool
  hasEwOccurred :: bool
  hasBoOccurred :: bool
  hasWdiOccurred :: bool
  hasPeaOccurred :: bool
  hasPedOccurred :: bool
  hasAraOccurred :: bool

section \<open>Results\<close>

text \<open>
  A fallible driver function returns \<^verbatim>\<open>bool\<close> and reports an error code through
  \<^verbatim>\<open>errCode\<close>. \<open>Success\<close> is the return value \<^verbatim>\<open>true\<close>; \<open>Failed e\<close> is \<^verbatim>\<open>returnError(errCode, e)\<close>:
  the return value \<^verbatim>\<open>false\<close>, with \<open>e\<close> stored through \<^verbatim>\<open>errCode\<close> when that pointer is not
  \<^verbatim>\<open>NULL\<close>; \<open>Aborted\<close> is a failed \<^verbatim>\<open>assert\<close>, after which the function does not return.
\<close>

datatype result = Success | Failed Mcan_ErrorCode | Aborted

definition returnError :: "Mcan_ErrorCode \<Rightarrow> result" where
  "returnError returnedError = Failed returnedError"

definition andThen :: "result \<times> 's \<Rightarrow> ('s \<Rightarrow> result \<times> 's) \<Rightarrow> result \<times> 's" where
  "andThen m k = (case m of (Success, s) \<Rightarrow> k s | (r, s) \<Rightarrow> (r, s))"

section \<open>Bits.h\<close>

definition shiftValueLeft :: "u32 \<Rightarrow> nat \<Rightarrow> u32 \<Rightarrow> u32" where
  "shiftValueLeft value offset msk = (let shifted = push_bit offset value in shifted AND msk)"

definition shiftBitLeft :: "bool \<Rightarrow> nat \<Rightarrow> u32" where
  "shiftBitLeft value offset = (let v32 = (if value then 1 else 0) in push_bit offset v32)"

definition getValueAtOffset :: "u32 \<Rightarrow> nat \<Rightarrow> u32 \<Rightarrow> u32" where
  "getValueAtOffset value offset msk = (let maskedValue = value AND msk in drop_bit offset maskedValue)"

definition isFieldSet :: "u32 \<Rightarrow> u32 \<Rightarrow> bool" where
  "isFieldSet value msk = (value AND msk \<noteq> 0)"

definition isBitSet :: "u32 \<Rightarrow> nat \<Rightarrow> bool" where
  "isBitSet value offset = isFieldSet value (push_bit offset 1)"

definition BIT_FIELD_VALUE :: "'a Mcan_Layout_scheme \<Rightarrow> field \<Rightarrow> u32 \<Rightarrow> u32" where
  "BIT_FIELD_VALUE L bitFieldName value = shiftValueLeft value (OFFSET L bitFieldName) (MASK L bitFieldName)"

definition BIT_VALUE :: "'a Mcan_Layout_scheme \<Rightarrow> field \<Rightarrow> bool \<Rightarrow> u32" where
  "BIT_VALUE L bitName value = shiftBitLeft value (OFFSET L bitName)"

definition GET_FIELD_VALUE :: "'a Mcan_Layout_scheme \<Rightarrow> field \<Rightarrow> u32 \<Rightarrow> u32" where
  "GET_FIELD_VALUE L bitFieldName registerValue =
     getValueAtOffset registerValue (OFFSET L bitFieldName) (MASK L bitFieldName)"

definition IS_BIT_SET :: "'a Mcan_Layout_scheme \<Rightarrow> field \<Rightarrow> u32 \<Rightarrow> bool" where
  "IS_BIT_SET L bitFieldName registerValue = isBitSet registerValue (OFFSET L bitFieldName)"

subsection \<open>Register accesses\<close>

definition reg_read :: "('h, 'a) Mcan_Env_scheme \<Rightarrow> reg \<Rightarrow> 'h world \<Rightarrow> u32 \<times> 'h world" where
  "reg_read E r w =
     (let (v, d) = hw_read E r (dev w) in (v, w\<lparr>dev := d, trace := trace w @ [Rd r v]\<rparr>))"

definition reg_write :: "('h, 'a) Mcan_Env_scheme \<Rightarrow> reg \<Rightarrow> u32 \<Rightarrow> 'h world \<Rightarrow> 'h world" where
  "reg_write E r v w = w\<lparr>dev := hw_write E r v (dev w), trace := trace w @ [Wr r v]\<rparr>"

text \<open>The compound assignments \<^verbatim>\<open>*reg |= m\<close> and \<^verbatim>\<open>*reg &= m\<close>: a read, then a write.\<close>

definition reg_or :: "('h, 'a) Mcan_Env_scheme \<Rightarrow> reg \<Rightarrow> u32 \<Rightarrow> 'h world \<Rightarrow> 'h world" where
  "reg_or E r m w = (let (v, w1) = reg_read E r w in reg_write E r (v OR m) w1)"

definition reg_and :: "('h, 'a) Mcan_Env_scheme \<Rightarrow> reg \<Rightarrow> u32 \<Rightarrow> 'h world \<Rightarrow> 'h world" where
  "reg_and E r m w = (let (v, w1) = reg_read E r w in reg_write E r (v AND m) w1)"

definition changeBitAtOffset ::
  "('h, 'a) Mcan_Env_scheme \<Rightarrow> reg \<Rightarrow> nat \<Rightarrow> bool \<Rightarrow> 'h world \<Rightarrow> 'h world" where
  "changeBitAtOffset E r offset value w =
     (let (current, w1) = reg_read E r w in
      if value then reg_write E r (current OR push_bit offset 1) w1
      else reg_write E r (current AND NOT (push_bit offset 1)) w1)"

definition setValueAtOffset ::
  "('h, 'a) Mcan_Env_scheme \<Rightarrow> reg \<Rightarrow> u32 \<Rightarrow> nat \<Rightarrow> u32 \<Rightarrow> 'h world \<Rightarrow> 'h world" where
  "setValueAtOffset E r value offset msk w =
     (let (regVal, w1) = reg_read E r w;
          regVal1 = regVal AND NOT msk;
          regVal2 = regVal1 OR shiftValueLeft value offset msk
      in reg_write E r regVal2 w1)"

definition SET_FIELD_VALUE ::
  "('h, 'a) Mcan_Env_scheme \<Rightarrow> field \<Rightarrow> reg \<Rightarrow> u32 \<Rightarrow> 'h world \<Rightarrow> 'h world" where
  "SET_FIELD_VALUE E bitFieldName r fieldValue w =
     setValueAtOffset E r fieldValue (OFFSET E bitFieldName) (MASK E bitFieldName) w"

section \<open>Utils.h: polling a register\<close>

text \<open>
  \<^verbatim>\<open>for (counter = 0; counter < timeout; ++counter) if ((*address & mask) != 0u) return true;\<close>
  \<^verbatim>\<open>return false;\<close> Each iteration reads the register once. The counter stays below the 32-bit
  timeout, so it is a natural number here.
\<close>

function waitForRegister_loop ::
  "('h, 'a) Mcan_Env_scheme \<Rightarrow> reg \<Rightarrow> u32 \<Rightarrow> nat \<Rightarrow> nat \<Rightarrow> 'h world \<Rightarrow> bool \<times> 'h world" where
  "waitForRegister_loop E address msk timeout counter w =
     (if counter < timeout then
        (case reg_read E address w of
           (v, w1) \<Rightarrow>
             if v AND msk \<noteq> 0 then (True, w1)
             else waitForRegister_loop E address msk timeout (Suc counter) w1)
      else (False, w))"
  by pat_completeness auto
termination
  by (relation "measure (\<lambda>(E, address, msk, timeout, counter, w). timeout - counter)") auto

declare waitForRegister_loop.simps [simp del]

definition waitForRegisterWithTimeout ::
  "('h, 'a) Mcan_Env_scheme \<Rightarrow> reg \<Rightarrow> u32 \<Rightarrow> u32 \<Rightarrow> 'h world \<Rightarrow> bool \<times> 'h world" where
  "waitForRegisterWithTimeout E address msk timeout w =
     waitForRegister_loop E address msk (unat timeout) 0 w"

section \<open>Message RAM accesses\<close>

text \<open>
  The message RAM is byte-addressed; a \<^verbatim>\<open>uint32_t\<close> is stored least significant byte first
  (the Cortex-M target is little-endian).
\<close>

definition load32 :: "(addr \<Rightarrow> u8) \<Rightarrow> addr \<Rightarrow> u32" where
  "load32 m a =
     ucast (m a) OR push_bit 8 (ucast (m (a + 1))) OR push_bit 16 (ucast (m (a + 2)))
       OR push_bit 24 (ucast (m (a + 3)))"

definition store32 :: "(addr \<Rightarrow> u8) \<Rightarrow> addr \<Rightarrow> u32 \<Rightarrow> (addr \<Rightarrow> u8)" where
  "store32 m a v =
     m(a := ucast v, a + 1 := ucast (drop_bit 8 v), a + 2 := ucast (drop_bit 16 v),
       a + 3 := ucast (drop_bit 24 v))"

definition memset :: "(addr \<Rightarrow> u8) \<Rightarrow> addr \<Rightarrow> u8 \<Rightarrow> nat \<Rightarrow> (addr \<Rightarrow> u8)" where
  "memset m s c n = fold (\<lambda>i m'. m'(s + of_nat i := c)) [0..<n] m"

definition memcpy_in :: "(addr \<Rightarrow> u8) \<Rightarrow> addr \<Rightarrow> (nat \<Rightarrow> u8) \<Rightarrow> nat \<Rightarrow> (addr \<Rightarrow> u8)" where
  "memcpy_in m dest src n = fold (\<lambda>i m'. m'(dest + of_nat i := src i)) [0..<n] m"

definition memcpy_out :: "(addr \<Rightarrow> u8) \<Rightarrow> addr \<Rightarrow> nat \<Rightarrow> u8 list" where
  "memcpy_out m src n = map (\<lambda>i. m (src + of_nat i)) [0..<n]"

text \<open>\<^verbatim>\<open>base[k] |= v\<close> on a \<^verbatim>\<open>uint32_t *base\<close>.\<close>

definition ram_or :: "addr \<Rightarrow> u32 \<Rightarrow> u32 \<Rightarrow> 'h world \<Rightarrow> 'h world" where
  "ram_or base k v w =
     w\<lparr>ram := store32 (ram w) (base + 4 * k) (load32 (ram w) (base + 4 * k) OR v)\<rparr>"

section \<open>Element Codec\<close>

fun decodeElementSizeInBytes :: "Mcan_ElementSize \<Rightarrow> Mcan_DataLengthRaw" where
  "decodeElementSizeInBytes Mcan_ElementSize_8 = Mcan_DataLengthRaw_8"
| "decodeElementSizeInBytes Mcan_ElementSize_12 = Mcan_DataLengthRaw_12"
| "decodeElementSizeInBytes Mcan_ElementSize_16 = Mcan_DataLengthRaw_16"
| "decodeElementSizeInBytes Mcan_ElementSize_20 = Mcan_DataLengthRaw_20"
| "decodeElementSizeInBytes Mcan_ElementSize_24 = Mcan_DataLengthRaw_24"
| "decodeElementSizeInBytes Mcan_ElementSize_32 = Mcan_DataLengthRaw_32"
| "decodeElementSizeInBytes Mcan_ElementSize_48 = Mcan_DataLengthRaw_48"
| "decodeElementSizeInBytes Mcan_ElementSize_64 = Mcan_DataLengthRaw_64"
| "decodeElementSizeInBytes Mcan_ElementSize_Invalid = Mcan_DataLengthRaw_Invalid"

definition decodeTxElementSizeInBytes :: "'a Mcan_Layout_scheme \<Rightarrow> Mcan_ElementSize \<Rightarrow> u8" where
  "decodeTxElementSizeInBytes L sz =
     (let elementSize = decodeElementSizeInBytes sz in
      ucast ((ucast elementSize :: u32) + MCAN_TXELEMENT_DATA_WORD L * 4))"

definition decodeRxElementSizeInBytes :: "'a Mcan_Layout_scheme \<Rightarrow> Mcan_ElementSize \<Rightarrow> u8" where
  "decodeRxElementSizeInBytes L sz =
     (let elementSize = decodeElementSizeInBytes sz in
      ucast ((ucast elementSize :: u32) + MCAN_RXELEMENT_DATA_WORD L * 4))"

definition encodeElementSize :: "u8 \<Rightarrow> Mcan_ElementSize" where
  "encodeElementSize sz =
     (if sz = 8 then Mcan_ElementSize_8
      else if sz = 12 then Mcan_ElementSize_12
      else if sz = 16 then Mcan_ElementSize_16
      else if sz = 20 then Mcan_ElementSize_20
      else if sz = 24 then Mcan_ElementSize_24
      else if sz = 32 then Mcan_ElementSize_32
      else if sz = 48 then Mcan_ElementSize_48
      else if sz = 64 then Mcan_ElementSize_64
      else Mcan_ElementSize_Invalid)"

definition encodeTxElementSizeInBytes :: "'a Mcan_Layout_scheme \<Rightarrow> u8 \<Rightarrow> Mcan_ElementSize" where
  "encodeTxElementSizeInBytes L sz =
     encodeElementSize (ucast ((ucast sz :: u32) - MCAN_TXELEMENT_DATA_WORD L * 4))"

definition encodeRxElementSizeInBytes :: "'a Mcan_Layout_scheme \<Rightarrow> u8 \<Rightarrow> Mcan_ElementSize" where
  "encodeRxElementSizeInBytes L sz =
     encodeElementSize (ucast ((ucast sz :: u32) - MCAN_RXELEMENT_DATA_WORD L * 4))"

definition encodeDataLengthCode :: "Mcan_DataLengthRaw \<Rightarrow> Mcan_DataLengthCode" where
  "encodeDataLengthCode sz =
     (if sz \<le> Mcan_DataLengthRaw_8 then sz
      else if sz = Mcan_DataLengthRaw_12 then Mcan_DataLengthCode_12
      else if sz = Mcan_DataLengthRaw_16 then Mcan_DataLengthCode_16
      else if sz = Mcan_DataLengthRaw_20 then Mcan_DataLengthCode_20
      else if sz = Mcan_DataLengthRaw_24 then Mcan_DataLengthCode_24
      else if sz = Mcan_DataLengthRaw_32 then Mcan_DataLengthCode_32
      else if sz = Mcan_DataLengthRaw_48 then Mcan_DataLengthCode_48
      else if sz = Mcan_DataLengthRaw_64 then Mcan_DataLengthCode_64
      else Mcan_DataLengthCode_Invalid)"

definition decodeDataLengthCode :: "Mcan_DataLengthCode \<Rightarrow> bool \<Rightarrow> Mcan_DataLengthRaw" where
  "decodeDataLengthCode dlc isCanFdFrame =
     (if dlc \<le> Mcan_DataLengthRaw_8 then dlc
      else if \<not> isCanFdFrame then Mcan_DataLengthRaw_8
      else if dlc = Mcan_DataLengthCode_12 then Mcan_DataLengthRaw_12
      else if dlc = Mcan_DataLengthCode_16 then Mcan_DataLengthRaw_16
      else if dlc = Mcan_DataLengthCode_20 then Mcan_DataLengthRaw_20
      else if dlc = Mcan_DataLengthCode_24 then Mcan_DataLengthRaw_24
      else if dlc = Mcan_DataLengthCode_32 then Mcan_DataLengthRaw_32
      else if dlc = Mcan_DataLengthCode_48 then Mcan_DataLengthRaw_48
      else Mcan_DataLengthRaw_64)"

section \<open>Configuration/Mode Sequencer and Message RAM Layout Manager\<close>

definition setMsgRamBaseAddress ::
  "('h, 'a) Mcan_Env_scheme \<Rightarrow> Mcan_Config \<Rightarrow> 'h world \<Rightarrow> 'h world" where
  "setMsgRamBaseAddress E config w =
     (let w1 = w\<lparr>mcan := (mcan w)\<lparr>msgRamBaseAddress := Config_msgRamBaseAddress config\<rparr>\<rparr>;
          addressMsb = drop_bit 16 (Config_msgRamBaseAddress config)
      in SET_FIELD_VALUE E ''MCAN_CHIPCFG_CANXDMABA'' CANDMABA addressMsb w1)"

definition setPowerDownMode ::
  "('h, 'a) Mcan_Env_scheme \<Rightarrow> u32 \<Rightarrow> 'h world \<Rightarrow> result \<times> 'h world" where
  "setPowerDownMode E timeoutLimit w =
     (let w1 = reg_or E CCCR (MASK E ''MCAN_CCCR_CSR'') w in
      case waitForRegisterWithTimeout E CCCR (MASK E ''MCAN_CCCR_CSA'') timeoutLimit w1 of
        (acked, w2) \<Rightarrow>
          if \<not> acked then (returnError Mcan_ErrorCode_ClockStopRequestTimeout, w2)
          else (Success, w2))"

definition setMode ::
  "('h, 'a) Mcan_Env_scheme \<Rightarrow> Mcan_Config \<Rightarrow> u32 \<Rightarrow> 'h world \<Rightarrow> result \<times> 'h world" where
  "setMode E config timeoutLimit w =
     (let w1 = (if Config_isFdEnabled config then reg_or E CCCR (MASK E ''MCAN_CCCR_FDOE'') w
                else w)
      in case Config_mode config of
           Mcan_Mode_Normal \<Rightarrow> (Success, w1)
         | Mcan_Mode_AutomaticRetransmissionDisabled \<Rightarrow>
             (Success, reg_or E CCCR (MASK E ''MCAN_CCCR_DAR'') w1)
         | Mcan_Mode_Restricted \<Rightarrow> (Success, reg_or E CCCR (MASK E ''MCAN_CCCR_ASM'') w1)
         | Mcan_Mode_BusMonitoring \<Rightarrow> (Success, reg_or E CCCR (MASK E ''MCAN_CCCR_MON'') w1)
         | Mcan_Mode_PowerDown \<Rightarrow>
             (case setPowerDownMode E timeoutLimit w1 of
                (Success, w2) \<Rightarrow> (Success, w2)
              | (r, w2) \<Rightarrow> (r, w2))
         | Mcan_Mode_InternalLoopBackTest \<Rightarrow>
             (let w2 = reg_or E CCCR (MASK E ''MCAN_CCCR_TEST'') w1;
                  w3 = reg_or E CCCR (MASK E ''MCAN_CCCR_MON'') w2
              in (Success, reg_write E TEST (MASK E ''MCAN_TEST_LBCK'') w3))
         | Mcan_Mode_Invalid \<Rightarrow> (returnError Mcan_ErrorCode_ModeInvalid, w1))"

definition setNominalTiming ::
  "('h, 'a) Mcan_Env_scheme \<Rightarrow> Mcan_Config \<Rightarrow> 'h world \<Rightarrow> result \<times> 'h world" where
  "setNominalTiming E config w =
     (let timing = Config_nominalBitTiming config in
      if \<not> (timeSegmentBeforeSamplePoint timing > 0) then (Aborted, w)
      else (Success,
        reg_write E NBTP
          (BIT_FIELD_VALUE E ''MCAN_NBTP_NBRP'' (ucast (bitRatePrescaler timing))
           OR BIT_FIELD_VALUE E ''MCAN_NBTP_NTSEG2'' (ucast (timeSegmentAfterSamplePoint timing))
           OR BIT_FIELD_VALUE E ''MCAN_NBTP_NTSEG1'' (ucast (timeSegmentBeforeSamplePoint timing))
           OR BIT_FIELD_VALUE E ''MCAN_NBTP_NSJW'' (ucast (synchronizationJump timing))) w))"

definition setDataTiming ::
  "('h, 'a) Mcan_Env_scheme \<Rightarrow> Mcan_Config \<Rightarrow> 'h world \<Rightarrow> result \<times> 'h world" where
  "setDataTiming E config w =
     (let timing = Config_dataBitTiming config in
      if \<not> (timeSegmentBeforeSamplePoint timing > 0) then (Aborted, w)
      else (Success,
        reg_write E DBTP
          (BIT_FIELD_VALUE E ''MCAN_DBTP_DBRP'' (ucast (bitRatePrescaler timing))
           OR BIT_FIELD_VALUE E ''MCAN_DBTP_DTSEG2'' (ucast (timeSegmentAfterSamplePoint timing))
           OR BIT_FIELD_VALUE E ''MCAN_DBTP_DTSEG1'' (ucast (timeSegmentBeforeSamplePoint timing))
           OR BIT_FIELD_VALUE E ''MCAN_DBTP_DSJW'' (ucast (synchronizationJump timing))) w))"

definition setTransmitterDelayCompensation ::
  "('h, 'a) Mcan_Env_scheme \<Rightarrow> Mcan_TransmitterDelayCompensation \<Rightarrow> 'h world \<Rightarrow> 'h world" where
  "setTransmitterDelayCompensation E config w =
     (let w1 = changeBitAtOffset E DBTP (OFFSET E ''MCAN_DBTP_TDC'') (Tdc_isEnabled config) w in
      reg_write E TDCR
        (BIT_FIELD_VALUE E ''MCAN_TDCR_TDCF'' (ucast (Tdc_filter config))
         OR BIT_FIELD_VALUE E ''MCAN_TDCR_TDCO'' (ucast (Tdc_offset config))) w1)"

definition setTimestamp ::
  "('h, 'a) Mcan_Env_scheme \<Rightarrow> Mcan_Config \<Rightarrow> 'h world \<Rightarrow> 'h world" where
  "setTimestamp E config w =
     (let w1 = reg_write E TSCC
            (BIT_FIELD_VALUE E ''MCAN_TSCC_TSS'' (Mcan_TimestampClk_val (Config_timestampClk config))
             OR BIT_FIELD_VALUE E ''MCAN_TSCC_TCP'' (ucast (Config_timestampTimeoutPrescaler config))) w
      in reg_write E TSCV 0 w1)"

definition setTimeout ::
  "('h, 'a) Mcan_Env_scheme \<Rightarrow> Mcan_TimeoutConfig \<Rightarrow> 'h world \<Rightarrow> 'h world" where
  "setTimeout E config w =
     (if Timeout_isEnabled config then
        reg_write E TOCC
          (MASK E ''MCAN_TOCC_ETOC''
           OR BIT_FIELD_VALUE E ''MCAN_TOCC_TOS'' (Mcan_TimeoutType_val (Timeout_type config))
           OR BIT_FIELD_VALUE E ''MCAN_TOCC_TOP'' (ucast (Timeout_period config))) w
      else reg_write E TOCC 0 w)"

definition setStandardIdFiltering ::
  "('h, 'a) Mcan_Env_scheme \<Rightarrow> Mcan_Config \<Rightarrow> 'h world \<Rightarrow> 'h world" where
  "setStandardIdFiltering E config w =
     (let f = Config_standardIdFilter config in
      if isIdRejected f then
        (let w1 = reg_or E GFC (MASK E ''MCAN_GFC_RRFS'') w;
             w2 = reg_write E SIDFC 0 w1
         in w2\<lparr>mcan := (mcan w2)\<lparr>rxStdFilterAddress := NULL, rxStdFilterSize := 0\<rparr>\<rparr>)
      else
        (let w1 = reg_or E GFC
               (BIT_FIELD_VALUE E ''MCAN_GFC_ANFS'' (Mcan_NonMatchingPolicy_val (nonMatchingPolicy f))) w;
             filterListAddress' = filterListAddress f;
             w2 = reg_write E SIDFC
               ((filterListAddress' AND MASK E ''MCAN_SIDFC_FLSSA'')
                OR BIT_FIELD_VALUE E ''MCAN_SIDFC_LSS'' (ucast (filterListSize f))) w1
         in w2\<lparr>mcan := (mcan w2)\<lparr>rxStdFilterAddress := filterListAddress f,
                                  rxStdFilterSize := filterListSize f\<rparr>\<rparr>))"

definition setExtendedIdFiltering ::
  "('h, 'a) Mcan_Env_scheme \<Rightarrow> Mcan_Config \<Rightarrow> 'h world \<Rightarrow> 'h world" where
  "setExtendedIdFiltering E config w =
     (let f = Config_extendedIdFilter config in
      if isIdRejected f then
        (let w1 = reg_or E GFC (MASK E ''MCAN_GFC_RRFE'') w;
             w2 = reg_write E XIDFC 0 w1
         in w2\<lparr>mcan := (mcan w2)\<lparr>rxExtFilterAddress := NULL, rxExtFilterSize := 0\<rparr>\<rparr>)
      else
        (let w1 = reg_or E GFC
               (BIT_FIELD_VALUE E ''MCAN_GFC_ANFE'' (Mcan_NonMatchingPolicy_val (nonMatchingPolicy f))) w;
             filterListAddress' = filterListAddress f;
             w2 = reg_write E XIDFC
               ((filterListAddress' AND MASK E ''MCAN_XIDFC_FLESA'')
                OR BIT_FIELD_VALUE E ''MCAN_XIDFC_LSE'' (ucast (filterListSize f))) w1
         in w2\<lparr>mcan := (mcan w2)\<lparr>rxExtFilterAddress := filterListAddress f,
                                  rxExtFilterSize := filterListSize f\<rparr>\<rparr>))"

definition setRxFifo0 ::
  "('h, 'a) Mcan_Env_scheme \<Rightarrow> Mcan_Config \<Rightarrow> 'h world \<Rightarrow> 'h world" where
  "setRxFifo0 E config w =
     (let c = Config_rxFifo0 config;
          w1 = reg_and E RXESC (NOT (MASK E ''MCAN_RXESC_F0DS'')) w
      in if RxFifoConfig_isEnabled c then
           (let startAddress = RxFifoConfig_startAddress c;
                w2 = reg_write E RXF0C
                  ((startAddress AND MASK E ''MCAN_RXF0C_F0SA'')
                   OR BIT_FIELD_VALUE E ''MCAN_RXF0C_F0S'' (ucast (RxFifoConfig_size c))
                   OR BIT_FIELD_VALUE E ''MCAN_RXF0C_F0WM'' (ucast (RxFifoConfig_watermark c))
                   OR BIT_FIELD_VALUE E ''MCAN_RXF0C_F0OM''
                        (Mcan_RxFifoOperationMode_val (RxFifoConfig_mode c))) w1;
                w3 = reg_or E RXESC
                  (BIT_FIELD_VALUE E ''MCAN_RXESC_F0DS''
                     (Mcan_ElementSize_val (RxFifoConfig_elementSize c))) w2
            in w3\<lparr>mcan := (mcan w3)\<lparr>rxFifo0 :=
                 \<lparr>RxFifo_address = RxFifoConfig_startAddress c,
                  RxFifo_size = RxFifoConfig_size c,
                  RxFifo_elementSize = decodeRxElementSizeInBytes E (RxFifoConfig_elementSize c)\<rparr>\<rparr>\<rparr>)
         else
           (let w2 = reg_write E RXF0C 0 w1 in
            w2\<lparr>mcan := (mcan w2)\<lparr>rxFifo0 :=
                 \<lparr>RxFifo_address = NULL, RxFifo_size = 0, RxFifo_elementSize = 0\<rparr>\<rparr>\<rparr>))"

definition setRxFifo1 ::
  "('h, 'a) Mcan_Env_scheme \<Rightarrow> Mcan_Config \<Rightarrow> 'h world \<Rightarrow> 'h world" where
  "setRxFifo1 E config w =
     (let c = Config_rxFifo1 config;
          w1 = reg_and E RXESC (NOT (MASK E ''MCAN_RXESC_F1DS'')) w
      in if RxFifoConfig_isEnabled c then
           (let startAddress = RxFifoConfig_startAddress c;
                w2 = reg_write E RXF1C
                  ((startAddress AND MASK E ''MCAN_RXF1C_F1SA'')
                   OR BIT_FIELD_VALUE E ''MCAN_RXF1C_F1S'' (ucast (RxFifoConfig_size c))
                   OR BIT_FIELD_VALUE E ''MCAN_RXF1C_F1WM'' (ucast (RxFifoConfig_watermark c))
                   OR BIT_FIELD_VALUE E ''MCAN_RXF1C_F1OM''
                        (Mcan_RxFifoOperationMode_val (RxFifoConfig_mode c))) w1;
                w3 = reg_or E RXESC
                  (BIT_FIELD_VALUE E ''MCAN_RXESC_F1DS''
                     (Mcan_ElementSize_val (RxFifoConfig_elementSize c))) w2
            in w3\<lparr>mcan := (mcan w3)\<lparr>rxFifo1 :=
                 \<lparr>RxFifo_address = RxFifoConfig_startAddress c,
                  RxFifo_size = RxFifoConfig_size c,
                  RxFifo_elementSize = decodeRxElementSizeInBytes E (RxFifoConfig_elementSize c)\<rparr>\<rparr>\<rparr>)
         else
           (let w2 = reg_write E RXF1C 0 w1 in
            w2\<lparr>mcan := (mcan w2)\<lparr>rxFifo1 :=
                 \<lparr>RxFifo_address = NULL, RxFifo_size = 0, RxFifo_elementSize = 0\<rparr>\<rparr>\<rparr>))"

definition setRxBuffer ::
  "('h, 'a) Mcan_Env_scheme \<Rightarrow> Mcan_Config \<Rightarrow> 'h world \<Rightarrow> 'h world" where
  "setRxBuffer E config w =
     (let c = Config_rxBuffer config;
          w1 = reg_write E RXBC (RxBufferConfig_startAddress c AND MASK E ''MCAN_RXBC_RBSA'') w;
          w2 = SET_FIELD_VALUE E ''MCAN_RXESC_RBDS'' RXESC
                 (Mcan_ElementSize_val (RxBufferConfig_elementSize c)) w1
      in w2\<lparr>mcan := (mcan w2)\<lparr>rxBufferAddress := RxBufferConfig_startAddress c,
                               rxBufferElementSize :=
                                 decodeRxElementSizeInBytes E (RxBufferConfig_elementSize c)\<rparr>\<rparr>)"

text \<open>
  \<open>setTxBuffer\<close> returns \<^verbatim>\<open>bool\<close>, or stops in its \<^verbatim>\<open>assert\<close>: \<open>Some b\<close> is the return value
  \<open>b\<close>, \<open>None\<close> the failed assertion. The sum in the assertion is computed in \<^verbatim>\<open>int\<close>, so it
  does not wrap.
\<close>

definition setTxBuffer ::
  "('h, 'a) Mcan_Env_scheme \<Rightarrow> Mcan_Config \<Rightarrow> 'h world \<Rightarrow> bool option \<times> 'h world" where
  "setTxBuffer E config w =
     (let c = Config_txBuffer config in
      if TxBufferConfig_isEnabled c then
        (let txElementSize = decodeTxElementSizeInBytes E (TxBufferConfig_elementSize c) in
         if (ucast txElementSize :: u32) = MCAN_TXELEMENT_SIZE_INVALID E then (Some False, w)
         else if \<not> (unat (TxBufferConfig_bufferSize c) + unat (TxBufferConfig_queueSize c) \<le> 32)
         then (None, w)
         else
           (let startAddress = TxBufferConfig_startAddress c;
                w1 = reg_write E TXBC
                  ((startAddress AND MASK E ''MCAN_TXBC_TBSA'')
                   OR BIT_FIELD_VALUE E ''MCAN_TXBC_NDTB'' (ucast (TxBufferConfig_bufferSize c))
                   OR BIT_FIELD_VALUE E ''MCAN_TXBC_TFQS'' (ucast (TxBufferConfig_queueSize c))
                   OR BIT_FIELD_VALUE E ''MCAN_TXBC_TFQM''
                        (Mcan_TxQueueType_val (TxBufferConfig_queueType c))) w;
                w2 = reg_write E TXESC
                  (BIT_FIELD_VALUE E ''MCAN_TXESC_TBDS''
                     (Mcan_ElementSize_val (TxBufferConfig_elementSize c))) w1
            in (Some True,
                w2\<lparr>mcan := (mcan w2)\<lparr>tx :=
                  \<lparr>Tx_bufferAddress = TxBufferConfig_startAddress c,
                   Tx_bufferSize = TxBufferConfig_bufferSize c,
                   Tx_queueAddress =
                     TxBufferConfig_startAddress c
                       + 4 * ((ucast txElementSize * ucast (TxBufferConfig_bufferSize c)) div 4),
                   Tx_queueSize = TxBufferConfig_queueSize c,
                   Tx_elementSize = txElementSize\<rparr>\<rparr>\<rparr>)))
      else
        (let w1 = reg_write E TXBC 0 w;
             w2 = reg_write E TXESC 0 w1
         in (Some True,
             w2\<lparr>mcan := (mcan w2)\<lparr>tx :=
               \<lparr>Tx_bufferAddress = NULL, Tx_bufferSize = 0, Tx_queueAddress = NULL,
                Tx_queueSize = 0, Tx_elementSize = 0\<rparr>\<rparr>\<rparr>)))"

definition setTxEventFifo ::
  "('h, 'a) Mcan_Env_scheme \<Rightarrow> Mcan_Config \<Rightarrow> 'h world \<Rightarrow> 'h world" where
  "setTxEventFifo E config w =
     (let c = Config_txEventFifo config in
      if TxEventFifoConfig_isEnabled c then
        (let startAddress = TxEventFifoConfig_startAddress c;
             w1 = reg_write E TXEFC
               ((startAddress AND MASK E ''MCAN_TXEFC_EFSA'')
                OR BIT_FIELD_VALUE E ''MCAN_TXEFC_EFS'' (ucast (TxEventFifoConfig_size c))
                OR BIT_FIELD_VALUE E ''MCAN_TXEFC_EFWM'' (ucast (TxEventFifoConfig_watermark c))) w
         in w1\<lparr>mcan := (mcan w1)\<lparr>txEventFifoAddress := TxEventFifoConfig_startAddress c,
                                  txEventFifoSize := TxEventFifoConfig_size c\<rparr>\<rparr>)
      else
        (let w1 = reg_write E TXEFC 0 w in
         w1\<lparr>mcan := (mcan w1)\<lparr>txEventFifoAddress := NULL, txEventFifoSize := 0\<rparr>\<rparr>))"

text \<open>One iteration of the loop of \<open>setInterrupts\<close>, for the interrupt index \<open>i\<close>.\<close>

definition setInterrupt_step ::
  "('h, 'a) Mcan_Env_scheme \<Rightarrow> Mcan_Config \<Rightarrow> nat \<Rightarrow> 'h world \<Rightarrow> 'h world" where
  "setInterrupt_step E config i w =
     (if i \<noteq> Mcan_Interrupt_Reserved1 \<and> i \<noteq> Mcan_Interrupt_Reserved2 then
        (let w1 = reg_write E IR (shiftBitLeft True i) w;
             w2 = changeBitAtOffset E IE i (Interrupt_isEnabled (Config_interrupts config i)) w1
         in changeBitAtOffset E ILS i
              (Interrupt_line (Config_interrupts config i) \<noteq> Mcan_InterruptLine_0) w2)
      else w)"

definition setInterrupts ::
  "('h, 'a) Mcan_Env_scheme \<Rightarrow> Mcan_Config \<Rightarrow> 'h world \<Rightarrow> 'h world" where
  "setInterrupts E config w =
     (let w1 = fold (setInterrupt_step E config) [0..<Mcan_Interrupt_Count] w;
          w2 = reg_write E ILE
                 (BIT_VALUE E ''MCAN_ILE_EINT0'' (Config_isLine0InterruptEnabled config)
                  OR BIT_VALUE E ''MCAN_ILE_EINT1'' (Config_isLine1InterruptEnabled config)) w1;
          w3 = reg_write E TXBTIE 0 w2
      in reg_write E TXBCIE 0 w3)"

text \<open>
  The part of \<open>Mcan_setConfig\<close> that runs once the mode is set: timing, timestamp,
  timeout, filters, the regions, the interrupts, the RAM watchdog, and leaving
  initialization.
\<close>

definition setConfig_regions ::
  "('h, 'a) Mcan_Env_scheme \<Rightarrow> Mcan_Config \<Rightarrow> 'h world \<Rightarrow> result \<times> 'h world" where
  "setConfig_regions E config w =
     (let w1 = setTimestamp E config w;
          w2 = setTimeout E (Config_timeout config) w1;
          w3 = setStandardIdFiltering E config w2;
          w4 = setExtendedIdFiltering E config w3;
          w5 = setRxFifo0 E config w4;
          w6 = setRxFifo1 E config w5;
          w7 = setRxBuffer E config w6
      in case setTxBuffer E config w7 of
           (None, w8) \<Rightarrow> (Aborted, w8)
         | (Some False, w8) \<Rightarrow> (returnError Mcan_ErrorCode_ElementSizeInvalid, w8)
         | (Some True, w8) \<Rightarrow>
             (let w9 = setTxEventFifo E config w8;
                  w10 = setInterrupts E config w9;
                  w11 = reg_write E RWD
                          (BIT_FIELD_VALUE E ''MCAN_RWD_WDC'' (ucast (Config_wdtCounter config))) w10;
                  w12 = reg_write E XIDAM (MASK E ''MCAN_XIDAM_EIDM'') w11
              in (Success, reg_and E CCCR (NOT (MASK E ''MCAN_CCCR_INIT'')) w12)))"

definition Mcan_setConfig ::
  "('h, 'a) Mcan_Env_scheme \<Rightarrow> Mcan_Config \<Rightarrow> u32 \<Rightarrow> 'h world \<Rightarrow> result \<times> 'h world" where
  "Mcan_setConfig E config timeoutLimit w =
     (let w1 = setMsgRamBaseAddress E config w;
          w2 = reg_write E CCCR (MASK E ''MCAN_CCCR_INIT'') w1
      in case waitForRegisterWithTimeout E CCCR (MASK E ''MCAN_CCCR_INIT'') timeoutLimit w2 of
           (acked, w3) \<Rightarrow>
             if \<not> acked then (returnError Mcan_ErrorCode_InitializationStartTimeout, w3)
             else
               (let w4 = reg_or E CCCR (MASK E ''MCAN_CCCR_CCE'') w3;
                    w5 = reg_write E CCCR (MASK E ''MCAN_CCCR_CCE'' OR MASK E ''MCAN_CCCR_INIT'') w4;
                    w6 = reg_write E GFC 0 w5
                in andThen (setMode E config timeoutLimit w6) (\<lambda>w7.
                   andThen (setNominalTiming E config w7) (\<lambda>w8.
                   andThen (if Config_isFdEnabled config then
                              andThen (setDataTiming E config w8) (\<lambda>w9.
                                (Success, setTransmitterDelayCompensation E
                                   (Config_transmitterDelayCompensation config) w9))
                            else (Success, w8))
                     (setConfig_regions E config)))))"

section \<open>Transmit Path\<close>

text \<open>
  \<open>txAddElement\<close> writes the element at \<open>baseAddress\<close> in the message RAM and sets the
  element's bit in TXBTIE; it returns \<^verbatim>\<open>false\<close>, before any write, when the data size has
  no data length code.
\<close>

definition txAddElement ::
  "('h, 'a) Mcan_Env_scheme \<Rightarrow> Mcan_TxElement \<Rightarrow> addr \<Rightarrow> u8 \<Rightarrow> 'h world \<Rightarrow> bool \<times> 'h world" where
  "txAddElement E element baseAddress index w =
     (let dataLengthCode = (ucast (encodeDataLengthCode (TxElement_dataSize element)) :: u32) in
      if dataLengthCode = MCAN_DLC_INVALID E then (False, w)
      else
        (let w1 = w\<lparr>ram := memset (ram w) baseAddress 0 (unat (Tx_elementSize (tx (mcan w))))\<rparr>;
             w2 = ram_or baseAddress (WORD E ''MCAN_TXELEMENT_ESI'')
                    (BIT_FIELD_VALUE E ''MCAN_TXELEMENT_ESI''
                       (Mcan_ElementEsi_val (TxElement_esiFlag element))) w1;
             w3 = ram_or baseAddress (WORD E ''MCAN_TXELEMENT_XTD'')
                    (BIT_FIELD_VALUE E ''MCAN_TXELEMENT_XTD''
                       (Mcan_IdType_val (TxElement_idType element))) w2;
             w4 = ram_or baseAddress (WORD E ''MCAN_TXELEMENT_RTR'')
                    (BIT_FIELD_VALUE E ''MCAN_TXELEMENT_RTR''
                       (Mcan_FrameType_val (TxElement_frameType element))) w3;
             w5 = ram_or baseAddress (WORD E ''MCAN_TXELEMENT_MM'')
                    (BIT_FIELD_VALUE E ''MCAN_TXELEMENT_MM'' (ucast (TxElement_marker element))) w4;
             w6 = (if TxElement_idType element = Mcan_IdType_Standard then
                     ram_or baseAddress (WORD E ''MCAN_TXELEMENT_STDID'')
                       (BIT_FIELD_VALUE E ''MCAN_TXELEMENT_STDID'' (TxElement_id element)) w5
                   else
                     ram_or baseAddress (WORD E ''MCAN_TXELEMENT_EXTID'')
                       (BIT_FIELD_VALUE E ''MCAN_TXELEMENT_EXTID'' (TxElement_id element)) w5);
             w7 = (if TxElement_isTxEventStored element then
                     ram_or baseAddress (WORD E ''MCAN_TXELEMENT_EFC'')
                       (MASK E ''MCAN_TXELEMENT_EFC'') w6
                   else w6);
             w8 = (if TxElement_isCanFdFormatEnabled element then
                     ram_or baseAddress (WORD E ''MCAN_TXELEMENT_FDF'')
                       (MASK E ''MCAN_TXELEMENT_FDF'') w7
                   else w7);
             w9 = (if TxElement_isBitRateSwitchingEnabled element then
                     ram_or baseAddress (WORD E ''MCAN_TXELEMENT_BRS'')
                       (MASK E ''MCAN_TXELEMENT_BRS'') w8
                   else w8);
             w10 = ram_or baseAddress (WORD E ''MCAN_TXELEMENT_DLC'')
                     (BIT_FIELD_VALUE E ''MCAN_TXELEMENT_DLC'' dataLengthCode) w9;
             dataPointer = baseAddress + 4 * MCAN_TXELEMENT_DATA_WORD E;
             w11 = w10\<lparr>ram := memcpy_in (ram w10) dataPointer (TxElement_data element)
                                   (unat (TxElement_dataSize element))\<rparr>
         in (True, changeBitAtOffset E TXBTIE (unat index)
                     (TxElement_isInterruptEnabled element) w11)))"

definition Mcan_txBufferAdd ::
  "('h, 'a) Mcan_Env_scheme \<Rightarrow> Mcan_TxElement \<Rightarrow> u8 \<Rightarrow> 'h world \<Rightarrow> result \<times> 'h world" where
  "Mcan_txBufferAdd E element index w =
     (if index \<ge> Tx_bufferSize (tx (mcan w)) then (returnError Mcan_ErrorCode_IndexOutOfRange, w)
      else
        (let bufferPointer =
               Tx_bufferAddress (tx (mcan w))
                 + 4 * ((ucast (Tx_elementSize (tx (mcan w))) * ucast index) div 4)
         in case txAddElement E element bufferPointer index w of
              (added, w1) \<Rightarrow>
                if \<not> added then (returnError Mcan_ErrorCode_ElementSizeInvalid, w1)
                else (Success, reg_write E TXBAR (push_bit (unat index) 1) w1)))"

text \<open>
  \<open>Mcan_txQueuePush\<close> has the out-parameter \<^verbatim>\<open>index\<close>: the second component of the result is
  \<open>None\<close> when the function did not store through it, and \<open>Some i\<close> when it stored \<open>i\<close>.
\<close>

definition Mcan_txQueuePush ::
  "('h, 'a) Mcan_Env_scheme \<Rightarrow> Mcan_TxElement \<Rightarrow> 'h world \<Rightarrow> result \<times> u8 option \<times> 'h world" where
  "Mcan_txQueuePush E element w =
     (case reg_read E TXFQS w of
        (txfqs, w1) \<Rightarrow>
          (let full = IS_BIT_SET E ''MCAN_TXFQS_TFQF'' txfqs in
           if full then (returnError Mcan_ErrorCode_TxFifoFull, None, w1)
           else
             (let index = (ucast (GET_FIELD_VALUE E ''MCAN_TXFQS_TFQPI'' txfqs) :: u8);
                  baseAddr =
                    Tx_bufferAddress (tx (mcan w1))
                      + 4 * ((ucast (Tx_elementSize (tx (mcan w1))) * ucast index) div 4)
              in case txAddElement E element baseAddr index w1 of
                   (added, w2) \<Rightarrow>
                     if \<not> added then (returnError Mcan_ErrorCode_ElementSizeInvalid, Some index, w2)
                     else (Success, Some index, reg_write E TXBAR (push_bit (unat index) 1) w2))))"

section \<open>Receive Path\<close>

definition getRxElement :: "'a Mcan_Layout_scheme \<Rightarrow> (addr \<Rightarrow> u8) \<Rightarrow> addr \<Rightarrow> Mcan_RxElement" where
  "getRxElement L m baseAddr =
     (let word_at = (\<lambda>f. load32 m (baseAddr + 4 * WORD L f));
          esiFlag = GET_FIELD_VALUE L ''MCAN_RXELEMENT_ESI'' (word_at ''MCAN_RXELEMENT_ESI'');
          idType = GET_FIELD_VALUE L ''MCAN_RXELEMENT_XTD'' (word_at ''MCAN_RXELEMENT_XTD'');
          frameType = GET_FIELD_VALUE L ''MCAN_RXELEMENT_RTR'' (word_at ''MCAN_RXELEMENT_RTR'');
          elementId = (if idType = Mcan_IdType_val Mcan_IdType_Standard then
                  GET_FIELD_VALUE L ''MCAN_RXELEMENT_STDID'' (word_at ''MCAN_RXELEMENT_STDID'')
                else GET_FIELD_VALUE L ''MCAN_RXELEMENT_EXTID'' (word_at ''MCAN_RXELEMENT_EXTID''));
          isNonMatchingFrame =
            (GET_FIELD_VALUE L ''MCAN_RXELEMENT_ANMF'' (word_at ''MCAN_RXELEMENT_ANMF'') \<noteq> 0);
          filterIndex =
            (ucast (GET_FIELD_VALUE L ''MCAN_RXELEMENT_FIDX'' (word_at ''MCAN_RXELEMENT_FIDX'')) :: u8);
          isCanFdFormatEnabled = IS_BIT_SET L ''MCAN_RXELEMENT_FDF'' (word_at ''MCAN_RXELEMENT_FDF'');
          isBitRateSwitchingEnabled =
            IS_BIT_SET L ''MCAN_RXELEMENT_BRS'' (word_at ''MCAN_RXELEMENT_BRS'');
          timestamp =
            (ucast (GET_FIELD_VALUE L ''MCAN_RXELEMENT_RXTS'' (word_at ''MCAN_RXELEMENT_RXTS'')) :: u16);
          dataSize =
            decodeDataLengthCode
              (ucast (GET_FIELD_VALUE L ''MCAN_RXELEMENT_DLC'' (word_at ''MCAN_RXELEMENT_DLC'')))
              isCanFdFormatEnabled;
          dataPointer = baseAddr + 4 * MCAN_RXELEMENT_DATA_WORD L
      in \<lparr>RxElement_esiFlag = esiFlag,
          RxElement_idType = idType,
          RxElement_frameType = frameType,
          RxElement_id = elementId,
          RxElement_isNonMatchingFrame = isNonMatchingFrame,
          RxElement_filterIndex = filterIndex,
          RxElement_isCanFdFormatEnabled = isCanFdFormatEnabled,
          RxElement_isBitRateSwitchingEnabled = isBitRateSwitchingEnabled,
          RxElement_timestamp = timestamp,
          RxElement_dataSize = dataSize,
          RxElement_data = memcpy_out m dataPointer (unat dataSize)\<rparr>)"

text \<open>
  \<open>Mcan_rxFifoPull\<close> has the out-parameter \<^verbatim>\<open>element\<close>: the second component of the result
  is \<open>None\<close> when the function did not store through it. The status register of the
  selected FIFO is read in the \<^verbatim>\<open>switch\<close>, before the descriptor is checked; the fields of
  both status registers are taken with the masks of FIFO 0, as the source does. The
  descriptor is part of the world, so \<^verbatim>\<open>assert(mcan != NULL)\<close> holds.
\<close>

definition Mcan_rxFifoPull ::
  "('h, 'a) Mcan_Env_scheme \<Rightarrow> Mcan_RxFifoId \<Rightarrow> 'h world
     \<Rightarrow> result \<times> Mcan_RxElement option \<times> 'h world" where
  "Mcan_rxFifoPull E fifoId w =
     (case (case fifoId of
              Mcan_RxFifoId_0 \<Rightarrow>
                (case reg_read E RXF0S w of
                   (v, w') \<Rightarrow> (v, RxFifo_address (rxFifo0 (mcan w')),
                                (ucast (RxFifo_elementSize (rxFifo0 (mcan w'))) :: u32), RXF0A, w'))
            | Mcan_RxFifoId_1 \<Rightarrow>
                (case reg_read E RXF1S w of
                   (v, w') \<Rightarrow> (v, RxFifo_address (rxFifo1 (mcan w')),
                                (ucast (RxFifo_elementSize (rxFifo1 (mcan w'))) :: u32), RXF1A, w')))
      of (rxfs, fifoAddress, elementSize, ackReg, w1) \<Rightarrow>
        if fifoAddress = NULL then (returnError Mcan_ErrorCode_InvalidRxFifoId, None, w1)
        else
          (let count = (ucast (GET_FIELD_VALUE E ''MCAN_RXF0S_F0FL'' rxfs) :: u8) in
           if count = 0 then (returnError Mcan_ErrorCode_RxFifoEmpty, None, w1)
           else
             (let getIndex = (ucast (GET_FIELD_VALUE E ''MCAN_RXF0S_F0GI'' rxfs) :: u8);
                  baseAddress = fifoAddress + 4 * ((elementSize * ucast getIndex) div 4);
                  element = getRxElement E (ram w1) baseAddress
              in (Success, Some element, reg_write E ackReg (ucast getIndex) w1))))"

section \<open>Interrupt/Status Aggregator\<close>

definition Mcan_getInterruptStatus ::
  "('h, 'a) Mcan_Env_scheme \<Rightarrow> 'h world \<Rightarrow> Mcan_InterruptStatus \<times> 'h world" where
  "Mcan_getInterruptStatus E w =
     (case reg_read E IR w of
        (flags, w1) \<Rightarrow>
          (let w2 = reg_write E IR flags w1 in
           (\<lparr>hasRf0nOccurred = (flags AND MASK E ''MCAN_IR_RF0N'' \<noteq> 0),
             hasRf0wOccurred = (flags AND MASK E ''MCAN_IR_RF0W'' \<noteq> 0),
             hasRf0fOccurred = (flags AND MASK E ''MCAN_IR_RF0F'' \<noteq> 0),
             hasRf0lOccurred = (flags AND MASK E ''MCAN_IR_RF0L'' \<noteq> 0),
             hasRf1nOccurred = (flags AND MASK E ''MCAN_IR_RF1N'' \<noteq> 0),
             hasRf1wOccurred = (flags AND MASK E ''MCAN_IR_RF1W'' \<noteq> 0),
             hasRf1fOccurred = (flags AND MASK E ''MCAN_IR_RF1F'' \<noteq> 0),
             hasRf1lOccurred = (flags AND MASK E ''MCAN_IR_RF1L'' \<noteq> 0),
             hasHpmOccurred = (flags AND MASK E ''MCAN_IR_HPM'' \<noteq> 0),
             hasTcOccurred = (flags AND MASK E ''MCAN_IR_TC'' \<noteq> 0),
             hasTcfOccurred = (flags AND MASK E ''MCAN_IR_TCF'' \<noteq> 0),
             hasTfeOccurred = (flags AND MASK E ''MCAN_IR_TFE'' \<noteq> 0),
             hasTefnOccurred = (flags AND MASK E ''MCAN_IR_TEFN'' \<noteq> 0),
             hasTefwOccurred = (flags AND MASK E ''MCAN_IR_TEFW'' \<noteq> 0),
             hasTeffOccurred = (flags AND MASK E ''MCAN_IR_TEFF'' \<noteq> 0),
             hasTeflOccurred = (flags AND MASK E ''MCAN_IR_TEFL'' \<noteq> 0),
             hasTswOccurred = (flags AND MASK E ''MCAN_IR_TSW'' \<noteq> 0),
             hasMrafOccurred = (flags AND MASK E ''MCAN_IR_MRAF'' \<noteq> 0),
             hasTooOccurred = (flags AND MASK E ''MCAN_IR_TOO'' \<noteq> 0),
             hasDrxOccurred = (flags AND MASK E ''MCAN_IR_DRX'' \<noteq> 0),
             hasEloOccurred = (flags AND MASK E ''MCAN_IR_ELO'' \<noteq> 0),
             hasEpOccurred = (flags AND MASK E ''MCAN_IR_EP'' \<noteq> 0),
             hasEwOccurred = (flags AND MASK E ''MCAN_IR_EW'' \<noteq> 0),
             hasBoOccurred = (flags AND MASK E ''MCAN_IR_BO'' \<noteq> 0),
             hasWdiOccurred = (flags AND MASK E ''MCAN_IR_WDI'' \<noteq> 0),
             hasPeaOccurred = (flags AND MASK E ''MCAN_IR_PEA'' \<noteq> 0),
             hasPedOccurred = (flags AND MASK E ''MCAN_IR_PED'' \<noteq> 0),
             hasAraOccurred = (flags AND MASK E ''MCAN_IR_ARA'' \<noteq> 0)\<rparr>,
            w2)))"

section \<open>Observing a call\<close>

text \<open>The register accesses a call made: what it appended to the trace.\<close>

definition events_since :: "'h world \<Rightarrow> 'h world \<Rightarrow> event list" where
  "events_since w w' = drop (length (trace w)) (trace w')"

fun written_regs :: "event list \<Rightarrow> reg list" where
  "written_regs [] = []"
| "written_regs (Wr r v # es) = r # written_regs es"
| "written_regs (Rd r v # es) = written_regs es"

fun read_regs :: "event list \<Rightarrow> reg list" where
  "read_regs [] = []"
| "read_regs (Rd r v # es) = r # read_regs es"
| "read_regs (Wr r v # es) = read_regs es"

text \<open>
  The region-configuration registers: the filter lists, the Rx FIFOs, the Rx buffer (with
  the Rx element sizes), the Tx buffer/queue (with the Tx element size) and the Tx Event
  FIFO.
\<close>

definition region_registers :: "reg set" where
  "region_registers = {SIDFC, XIDFC, RXF0C, RXF1C, RXBC, RXESC, TXBC, TXESC, TXEFC}"

text \<open>The status register and the descriptor of an Rx FIFO.\<close>

fun rxFifo_status_reg :: "Mcan_RxFifoId \<Rightarrow> reg" where
  "rxFifo_status_reg Mcan_RxFifoId_0 = RXF0S"
| "rxFifo_status_reg Mcan_RxFifoId_1 = RXF1S"

fun rxFifo_of :: "Mcan_RxFifoId \<Rightarrow> Mcan \<Rightarrow> Mcan_RxFifo" where
  "rxFifo_of Mcan_RxFifoId_0 m = rxFifo0 m"
| "rxFifo_of Mcan_RxFifoId_1 m = rxFifo1 m"

text \<open>
  A step of the configuration sequence that writes registers of \<open>S\<close> only and leaves the
  Tx descriptor and the message RAM as they are.
\<close>

definition config_step :: "reg set \<Rightarrow> 'h world \<Rightarrow> 'h world \<Rightarrow> bool" where
  "config_step S w w' =
     ((\<exists>es. trace w' = trace w @ es \<and> set (written_regs es) \<subseteq> S)
      \<and> tx (mcan w') = tx (mcan w) \<and> ram w' = ram w)"

section \<open>A concrete controller\<close>

text \<open>
  The register layout of the M-CAN controller, used where a statement is instantiated:
  for each field its word index (element fields), the offset of its lowest bit and its
  width in bits.
\<close>

definition mcan_fields :: "(field \<times> nat \<times> nat \<times> nat) list" where
  "mcan_fields =
    [(''MCAN_CHIPCFG_CANXDMABA'', 0, 16, 16),
     (''MCAN_CCCR_INIT'', 0, 0, 1), (''MCAN_CCCR_CCE'', 0, 1, 1), (''MCAN_CCCR_ASM'', 0, 2, 1),
     (''MCAN_CCCR_CSA'', 0, 3, 1), (''MCAN_CCCR_CSR'', 0, 4, 1), (''MCAN_CCCR_MON'', 0, 5, 1),
     (''MCAN_CCCR_DAR'', 0, 6, 1), (''MCAN_CCCR_TEST'', 0, 7, 1), (''MCAN_CCCR_FDOE'', 0, 8, 1),
     (''MCAN_TEST_LBCK'', 0, 4, 1),
     (''MCAN_NBTP_NBRP'', 0, 16, 9), (''MCAN_NBTP_NTSEG2'', 0, 0, 7),
     (''MCAN_NBTP_NTSEG1'', 0, 8, 8), (''MCAN_NBTP_NSJW'', 0, 25, 7),
     (''MCAN_DBTP_DBRP'', 0, 16, 5), (''MCAN_DBTP_DTSEG2'', 0, 4, 4),
     (''MCAN_DBTP_DTSEG1'', 0, 8, 5), (''MCAN_DBTP_DSJW'', 0, 0, 4), (''MCAN_DBTP_TDC'', 0, 23, 1),
     (''MCAN_TDCR_TDCF'', 0, 0, 7), (''MCAN_TDCR_TDCO'', 0, 8, 7),
     (''MCAN_TSCC_TSS'', 0, 0, 2), (''MCAN_TSCC_TCP'', 0, 16, 4),
     (''MCAN_TOCC_ETOC'', 0, 0, 1), (''MCAN_TOCC_TOS'', 0, 1, 2), (''MCAN_TOCC_TOP'', 0, 16, 16),
     (''MCAN_GFC_RRFE'', 0, 0, 1), (''MCAN_GFC_RRFS'', 0, 1, 1),
     (''MCAN_GFC_ANFE'', 0, 2, 2), (''MCAN_GFC_ANFS'', 0, 4, 2),
     (''MCAN_SIDFC_FLSSA'', 0, 2, 14), (''MCAN_SIDFC_LSS'', 0, 16, 8),
     (''MCAN_XIDFC_FLESA'', 0, 2, 14), (''MCAN_XIDFC_LSE'', 0, 16, 7),
     (''MCAN_XIDAM_EIDM'', 0, 0, 29),
     (''MCAN_RXESC_F0DS'', 0, 0, 3), (''MCAN_RXESC_F1DS'', 0, 4, 3), (''MCAN_RXESC_RBDS'', 0, 8, 3),
     (''MCAN_RXF0C_F0SA'', 0, 2, 14), (''MCAN_RXF0C_F0S'', 0, 16, 7),
     (''MCAN_RXF0C_F0WM'', 0, 24, 7), (''MCAN_RXF0C_F0OM'', 0, 31, 1),
     (''MCAN_RXF1C_F1SA'', 0, 2, 14), (''MCAN_RXF1C_F1S'', 0, 16, 7),
     (''MCAN_RXF1C_F1WM'', 0, 24, 7), (''MCAN_RXF1C_F1OM'', 0, 31, 1),
     (''MCAN_RXF0S_F0FL'', 0, 0, 7), (''MCAN_RXF0S_F0GI'', 0, 8, 6),
     (''MCAN_RXBC_RBSA'', 0, 2, 14),
     (''MCAN_TXBC_TBSA'', 0, 2, 14), (''MCAN_TXBC_NDTB'', 0, 16, 6),
     (''MCAN_TXBC_TFQS'', 0, 24, 6), (''MCAN_TXBC_TFQM'', 0, 30, 1),
     (''MCAN_TXESC_TBDS'', 0, 0, 3),
     (''MCAN_TXFQS_TFQF'', 0, 21, 1), (''MCAN_TXFQS_TFQPI'', 0, 16, 5),
     (''MCAN_TXEFC_EFSA'', 0, 2, 14), (''MCAN_TXEFC_EFS'', 0, 16, 6),
     (''MCAN_TXEFC_EFWM'', 0, 24, 6),
     (''MCAN_ILE_EINT0'', 0, 0, 1), (''MCAN_ILE_EINT1'', 0, 1, 1),
     (''MCAN_RWD_WDC'', 0, 0, 8),
     (''MCAN_IR_RF0N'', 0, 0, 1), (''MCAN_IR_RF0W'', 0, 1, 1), (''MCAN_IR_RF0F'', 0, 2, 1),
     (''MCAN_IR_RF0L'', 0, 3, 1), (''MCAN_IR_RF1N'', 0, 4, 1), (''MCAN_IR_RF1W'', 0, 5, 1),
     (''MCAN_IR_RF1F'', 0, 6, 1), (''MCAN_IR_RF1L'', 0, 7, 1), (''MCAN_IR_HPM'', 0, 8, 1),
     (''MCAN_IR_TC'', 0, 9, 1), (''MCAN_IR_TCF'', 0, 10, 1), (''MCAN_IR_TFE'', 0, 11, 1),
     (''MCAN_IR_TEFN'', 0, 12, 1), (''MCAN_IR_TEFW'', 0, 13, 1), (''MCAN_IR_TEFF'', 0, 14, 1),
     (''MCAN_IR_TEFL'', 0, 15, 1), (''MCAN_IR_TSW'', 0, 16, 1), (''MCAN_IR_MRAF'', 0, 17, 1),
     (''MCAN_IR_TOO'', 0, 18, 1), (''MCAN_IR_DRX'', 0, 19, 1), (''MCAN_IR_ELO'', 0, 22, 1),
     (''MCAN_IR_EP'', 0, 23, 1), (''MCAN_IR_EW'', 0, 24, 1), (''MCAN_IR_BO'', 0, 25, 1),
     (''MCAN_IR_WDI'', 0, 26, 1), (''MCAN_IR_PEA'', 0, 27, 1), (''MCAN_IR_PED'', 0, 28, 1),
     (''MCAN_IR_ARA'', 0, 29, 1),
     (''MCAN_TXELEMENT_ESI'', 0, 31, 1), (''MCAN_TXELEMENT_XTD'', 0, 30, 1),
     (''MCAN_TXELEMENT_RTR'', 0, 29, 1), (''MCAN_TXELEMENT_STDID'', 0, 18, 11),
     (''MCAN_TXELEMENT_EXTID'', 0, 0, 29), (''MCAN_TXELEMENT_MM'', 1, 24, 8),
     (''MCAN_TXELEMENT_EFC'', 1, 23, 1), (''MCAN_TXELEMENT_FDF'', 1, 21, 1),
     (''MCAN_TXELEMENT_BRS'', 1, 20, 1), (''MCAN_TXELEMENT_DLC'', 1, 16, 4),
     (''MCAN_RXELEMENT_ESI'', 0, 31, 1), (''MCAN_RXELEMENT_XTD'', 0, 30, 1),
     (''MCAN_RXELEMENT_RTR'', 0, 29, 1), (''MCAN_RXELEMENT_STDID'', 0, 18, 11),
     (''MCAN_RXELEMENT_EXTID'', 0, 0, 29), (''MCAN_RXELEMENT_ANMF'', 1, 31, 1),
     (''MCAN_RXELEMENT_FIDX'', 1, 24, 7), (''MCAN_RXELEMENT_FDF'', 1, 21, 1),
     (''MCAN_RXELEMENT_BRS'', 1, 20, 1), (''MCAN_RXELEMENT_DLC'', 1, 16, 4),
     (''MCAN_RXELEMENT_RXTS'', 1, 0, 16)]"

definition field_word :: "field \<Rightarrow> u32" where
  "field_word f = (case map_of mcan_fields f of Some (k, off, wd) \<Rightarrow> of_nat k | None \<Rightarrow> 0)"

definition field_offset :: "field \<Rightarrow> nat" where
  "field_offset f = (case map_of mcan_fields f of Some (k, off, wd) \<Rightarrow> off | None \<Rightarrow> 0)"

definition field_mask :: "field \<Rightarrow> u32" where
  "field_mask f =
     (case map_of mcan_fields f of Some (k, off, wd) \<Rightarrow> push_bit off (mask wd) | None \<Rightarrow> 0)"

text \<open>
  An environment with this layout, two header words before the data of an element, the
  invalid Tx element size \<open>0xF7 + 8\<close> and the invalid data length code \<open>0xF7\<close>, over a given
  device.
\<close>

definition mcan_env ::
  "(reg \<Rightarrow> 'h \<Rightarrow> u32 \<times> 'h) \<Rightarrow> (reg \<Rightarrow> u32 \<Rightarrow> 'h \<Rightarrow> 'h) \<Rightarrow> 'h Mcan_Env" where
  "mcan_env rd wr =
     \<lparr>MASK = field_mask, OFFSET = field_offset, WORD = field_word,
      MCAN_TXELEMENT_DATA_WORD = 2, MCAN_RXELEMENT_DATA_WORD = 2,
      MCAN_TXELEMENT_SIZE_INVALID = 0xFF, MCAN_DLC_INVALID = 0xF7,
      hw_read = rd, hw_write = wr\<rparr>"

text \<open>A device whose registers behave as memory: a read returns what was last written.\<close>

definition regfile_env :: "(reg \<Rightarrow> u32) Mcan_Env" where
  "regfile_env = mcan_env (\<lambda>r h. (h r, h)) (\<lambda>r v h. h(r := v))"

text \<open>A device that does not respond: every register reads as zero, writes are lost.\<close>

definition silent_env :: "unit Mcan_Env" where
  "silent_env = mcan_env (\<lambda>r h. (0, h)) (\<lambda>r v h. h)"

definition init_mcan :: Mcan where
  "init_mcan =
     \<lparr>msgRamBaseAddress = 0,
      tx = \<lparr>Tx_bufferAddress = 0, Tx_bufferSize = 0, Tx_queueAddress = 0, Tx_queueSize = 0,
            Tx_elementSize = 0\<rparr>,
      rxBufferAddress = 0, rxBufferElementSize = 0,
      rxFifo0 = \<lparr>RxFifo_address = 0, RxFifo_size = 0, RxFifo_elementSize = 0\<rparr>,
      rxFifo1 = \<lparr>RxFifo_address = 0, RxFifo_size = 0, RxFifo_elementSize = 0\<rparr>,
      txEventFifoAddress = 0, txEventFifoSize = 0,
      rxStdFilterAddress = 0, rxStdFilterSize = 0,
      rxExtFilterAddress = 0, rxExtFilterSize = 0\<rparr>"

text \<open>The world after \<open>Mcan_init\<close>: a zeroed descriptor, nothing accessed yet.\<close>

definition init_world :: "'h \<Rightarrow> 'h world" where
  "init_world h = \<lparr>dev = h, trace = [], ram = (\<lambda>a. 0), mcan = init_mcan\<rparr>"

text \<open>
  A descriptor as a configuration leaves it: four dedicated Tx buffers and four queue
  slots of 16 bytes, and Rx FIFO 0 with sixteen elements of 16 bytes.
\<close>

definition configured_mcan :: Mcan where
  "configured_mcan =
     init_mcan\<lparr>msgRamBaseAddress := 0x20400000,
       tx := \<lparr>Tx_bufferAddress = 0x20400400, Tx_bufferSize = 4, Tx_queueAddress = 0x20400440,
              Tx_queueSize = 4, Tx_elementSize = 16\<rparr>,
       rxFifo0 := \<lparr>RxFifo_address = 0x20400100, RxFifo_size = 16, RxFifo_elementSize = 16\<rparr>\<rparr>"

definition configured_world :: "'h \<Rightarrow> 'h world" where
  "configured_world h = (init_world h)\<lparr>mcan := configured_mcan\<rparr>"

definition zero_regs :: "reg \<Rightarrow> u32" where
  "zero_regs = (\<lambda>r. 0)"

definition example_element :: "u8 \<Rightarrow> Mcan_TxElement" where
  "example_element n =
     \<lparr>TxElement_esiFlag = Mcan_ElementEsi_Dominant, TxElement_idType = Mcan_IdType_Standard,
      TxElement_frameType = Mcan_FrameType_Data, TxElement_id = 0x123, TxElement_marker = 7,
      TxElement_isTxEventStored = False, TxElement_isCanFdFormatEnabled = False,
      TxElement_isBitRateSwitchingEnabled = False, TxElement_dataSize = n,
      TxElement_data = (\<lambda>i. of_nat i), TxElement_isInterruptEnabled = True\<rparr>"

text \<open>
  A configuration: normal mode without CAN FD, Rx FIFO 0 with sixteen elements, four
  dedicated Tx buffers and four queue slots, all with 8-byte data fields.
\<close>

definition example_config :: Mcan_Config where
  "example_config =
     \<lparr>Config_msgRamBaseAddress = 0x20400000,
      Config_mode = Mcan_Mode_Normal,
      Config_isFdEnabled = False,
      Config_nominalBitTiming =
        \<lparr>bitRatePrescaler = 5, synchronizationJump = 1, timeSegmentAfterSamplePoint = 1,
         timeSegmentBeforeSamplePoint = 10\<rparr>,
      Config_dataBitTiming =
        \<lparr>bitRatePrescaler = 1, synchronizationJump = 1, timeSegmentAfterSamplePoint = 1,
         timeSegmentBeforeSamplePoint = 10\<rparr>,
      Config_transmitterDelayCompensation =
        \<lparr>Tdc_isEnabled = False, Tdc_filter = 0, Tdc_offset = 0\<rparr>,
      Config_timestampClk = Mcan_TimestampClk_Internal,
      Config_timestampTimeoutPrescaler = 0,
      Config_timeout =
        \<lparr>Timeout_isEnabled = False, Timeout_type = Mcan_TimeoutType_Continuous,
         Timeout_period = 0\<rparr>,
      Config_standardIdFilter =
        \<lparr>isIdRejected = False, nonMatchingPolicy = Mcan_NonMatchingPolicy_RxFifo0,
         filterListAddress = 0x20400000, filterListSize = 0\<rparr>,
      Config_extendedIdFilter =
        \<lparr>isIdRejected = True, nonMatchingPolicy = Mcan_NonMatchingPolicy_Rejected,
         filterListAddress = 0, filterListSize = 0\<rparr>,
      Config_rxFifo0 =
        \<lparr>RxFifoConfig_isEnabled = True, RxFifoConfig_startAddress = 0x20400100,
         RxFifoConfig_size = 16, RxFifoConfig_watermark = 0,
         RxFifoConfig_mode = Mcan_RxFifoOperationMode_Blocking,
         RxFifoConfig_elementSize = Mcan_ElementSize_8\<rparr>,
      Config_rxFifo1 =
        \<lparr>RxFifoConfig_isEnabled = False, RxFifoConfig_startAddress = 0,
         RxFifoConfig_size = 0, RxFifoConfig_watermark = 0,
         RxFifoConfig_mode = Mcan_RxFifoOperationMode_Blocking,
         RxFifoConfig_elementSize = Mcan_ElementSize_8\<rparr>,
      Config_rxBuffer =
        \<lparr>RxBufferConfig_startAddress = 0x20400300,
         RxBufferConfig_elementSize = Mcan_ElementSize_8\<rparr>,
      Config_txBuffer =
        \<lparr>TxBufferConfig_isEnabled = True, TxBufferConfig_startAddress = 0x20400400,
         TxBufferConfig_bufferSize = 4, TxBufferConfig_queueSize = 4,
         TxBufferConfig_queueType = Mcan_TxQueueType_Fifo,
         TxBufferConfig_elementSize = Mcan_ElementSize_8\<rparr>,
      Config_txEventFifo =
        \<lparr>TxEventFifoConfig_isEnabled = False, TxEventFifoConfig_startAddress = 0,
         TxEventFifoConfig_size = 0, TxEventFifoConfig_watermark = 0\<rparr>,
      Config_interrupts =
        (\<lambda>i. \<lparr>Interrupt_isEnabled = False, Interrupt_line = Mcan_InterruptLine_0\<rparr>),
      Config_isLine0InterruptEnabled = False,
      Config_isLine1InterruptEnabled = False,
      Config_wdtCounter = 0\<rparr>"

text \<open>The same configuration with 32 dedicated Tx buffers and one queue slot.\<close>

definition oversized_config :: Mcan_Config where
  "oversized_config =
     example_config\<lparr>Config_txBuffer :=
       (Config_txBuffer example_config)\<lparr>TxBufferConfig_bufferSize := 32,
                                        TxBufferConfig_queueSize := 1\<rparr>\<rparr>"

text \<open>The oversized configuration with the Tx buffer disabled.\<close>

definition oversized_disabled_config :: Mcan_Config where
  "oversized_disabled_config =
     oversized_config\<lparr>Config_txBuffer :=
       (Config_txBuffer oversized_config)\<lparr>TxBufferConfig_isEnabled := False\<rparr>\<rparr>"

section \<open>Casts between 8-bit and 32-bit values\<close>

lemma take_bit_8_32_add: "take_bit 8 (take_bit 32 (a::int) + take_bit 32 b) = take_bit 8 (a + b)"
proof -
  have "take_bit 8 (take_bit 32 a + take_bit 32 b)
      = take_bit 8 (take_bit 8 (take_bit 32 a) + take_bit 8 (take_bit 32 b))"
    by (rule take_bit_add [symmetric])
  also have "\<dots> = take_bit 8 (take_bit 8 a + take_bit 8 b)" by simp
  also have "\<dots> = take_bit 8 (a + b)" by (rule take_bit_add)
  finally show ?thesis .
qed

lemma take_bit_8_32_diff: "take_bit 8 (take_bit 32 (a::int) - take_bit 32 b) = take_bit 8 (a - b)"
proof -
  have "take_bit 8 (take_bit 32 a - take_bit 32 b)
      = take_bit 8 (take_bit 8 (take_bit 32 a) - take_bit 8 (take_bit 32 b))"
    by (rule take_bit_diff [symmetric])
  also have "\<dots> = take_bit 8 (take_bit 8 a - take_bit 8 b)" by simp
  also have "\<dots> = take_bit 8 (a - b)" by (rule take_bit_diff)
  finally show ?thesis .
qed

lemma ucast_down_add: "(ucast ((a::u32) + b) :: u8) = ucast a + ucast b"
  by transfer (simp add: take_bit_8_32_add)

lemma ucast_down_sub: "(ucast ((a::u32) - b) :: u8) = ucast a - ucast b"
  by transfer (simp add: take_bit_8_32_diff)

lemma ucast_up_down: "(ucast (ucast (a::u8) :: u32) :: u8) = a"
  by (simp add: ucast_down_ucast_id is_down)

lemma u8_offset_roundtrip:
  "(ucast ((ucast (ucast ((ucast (r::u8) :: u32) + k) :: u8) :: u32) - k) :: u8) = r"
  by (simp add: ucast_down_add ucast_down_sub ucast_up_down)

lemma u8_offset_inverse:
  "(ucast ((ucast (n::u8) :: u32) - k) :: u8) = r \<Longrightarrow> n = ucast ((ucast r :: u32) + k)"
  by (auto simp add: ucast_down_add ucast_down_sub ucast_up_down)

lemma unat_ucast_u8_u32: "unat (ucast (e::u8) :: u32) = unat e"
  by transfer simp

lemma unat_u8_less: "unat (e::u8) < 256"
  using unsigned_less [of e, where ?'a = nat] by simp

lemma unat_prod_u8: "unat ((ucast (e::u8) :: u32) * ucast (b::u8)) = unat e * unat b"
proof -
  have "unat e * unat b < 256 * 256"
    by (intro mult_strict_mono unat_u8_less) simp_all
  then have "unat (ucast e :: u32) * unat (ucast b :: u32) < 2 ^ LENGTH(32)"
    by (simp add: unat_ucast_u8_u32)
  then have "unat ((ucast e :: u32) * ucast b) = unat (ucast e :: u32) * unat (ucast b :: u32)"
    by (rule iffD1 [OF unat_mult_lem])
  then show ?thesis by (simp add: unat_ucast_u8_u32)
qed

lemma aligned_product:
  assumes "4 dvd unat (e::u8)"
  shows "(4::u32) * ((ucast e * ucast (b::u8)) div 4) = ucast b * ucast e"
proof -
  let ?x = "(ucast e * ucast b) :: u32"
  have ux: "unat ?x = unat e * unat b" by (rule unat_prod_u8)
  have d: "4 dvd unat ?x" using assms ux by simp
  have dv: "unat (?x div 4) = unat ?x div 4"
    by (simp add: unat_div)
  have "unat (4::u32) * unat (?x div 4) < 2 ^ LENGTH(32)"
    using dv unsigned_less [of ?x, where ?'a = nat] by simp
  then have "unat (4 * (?x div 4)) = unat (4::u32) * unat (?x div 4)"
    by (rule iffD1 [OF unat_mult_lem])
  then have "unat (4 * (?x div 4)) = unat ?x"
    using d dv by simp
  then have "4 * (?x div 4) = ?x"
    by (simp add: word_unat_eq_iff)
  then show ?thesis by (simp add: mult.commute)
qed

lemma unat_ucast_u32_u8: "unat (ucast (x::u32) :: u8) = unat x mod 256"
  by transfer (simp add: take_bit_eq_mod nat_mod_distrib)

lemma dvd4_offset:
  "4 dvd unat (ucast ((ucast (r::u8) :: u32) + k * 4) :: u8) \<longleftrightarrow> 4 dvd unat r"
proof -
  have "4 dvd unat (ucast ((ucast r :: u32) + k * 4) :: u8)
        \<longleftrightarrow> 4 dvd unat ((ucast r :: u32) + k * 4)"
    by (simp add: unat_ucast_u32_u8 dvd_mod_iff)
  also have "\<dots> \<longleftrightarrow> 4 dvd (unat (ucast r :: u32) + unat (k * 4))"
    by (simp add: unat_word_ariths dvd_mod_iff)
  also have "\<dots> \<longleftrightarrow> 4 dvd unat r"
  proof -
    have "(4::nat) dvd unat k * 4 mod 4294967296"
      by (simp add: dvd_mod_iff)
    then have "(4::nat) dvd unat (k * 4)"
      by (simp add: unat_word_ariths)
    then show ?thesis
      by (simp add: unat_ucast_u8_u32 dvd_add_left_iff)
  qed
  finally show ?thesis .
qed

lemmas Mcan_DataLength_defs =
  Mcan_DataLengthCode_12_def Mcan_DataLengthCode_16_def Mcan_DataLengthCode_20_def
  Mcan_DataLengthCode_24_def Mcan_DataLengthCode_32_def Mcan_DataLengthCode_48_def
  Mcan_DataLengthCode_64_def Mcan_DataLengthCode_Invalid_def
  Mcan_DataLengthRaw_8_def Mcan_DataLengthRaw_12_def Mcan_DataLengthRaw_16_def
  Mcan_DataLengthRaw_20_def Mcan_DataLengthRaw_24_def Mcan_DataLengthRaw_32_def
  Mcan_DataLengthRaw_48_def Mcan_DataLengthRaw_64_def Mcan_DataLengthRaw_Invalid_def

lemma encodeElementSize_decode:
  "x \<noteq> Mcan_ElementSize_Invalid \<Longrightarrow> encodeElementSize (decodeElementSizeInBytes x) = x"
  by (cases x) (simp_all add: encodeElementSize_def Mcan_DataLength_defs)

lemma encodeElementSize_valid:
  "encodeElementSize n \<noteq> Mcan_ElementSize_Invalid \<Longrightarrow>
     \<exists>y. y \<noteq> Mcan_ElementSize_Invalid \<and> n = decodeElementSizeInBytes y"
proof -
  assume a: "encodeElementSize n \<noteq> Mcan_ElementSize_Invalid"
  then consider "n = 8" | "n = 12" | "n = 16" | "n = 20" | "n = 24" | "n = 32" | "n = 48" | "n = 64"
    by (auto simp: encodeElementSize_def split: if_splits)
  then show ?thesis
  proof cases
    case 1 then show ?thesis by (intro exI[of _ Mcan_ElementSize_8]) (simp add: Mcan_DataLength_defs)
  next
    case 2 then show ?thesis by (intro exI[of _ Mcan_ElementSize_12]) (simp add: Mcan_DataLength_defs)
  next
    case 3 then show ?thesis by (intro exI[of _ Mcan_ElementSize_16]) (simp add: Mcan_DataLength_defs)
  next
    case 4 then show ?thesis by (intro exI[of _ Mcan_ElementSize_20]) (simp add: Mcan_DataLength_defs)
  next
    case 5 then show ?thesis by (intro exI[of _ Mcan_ElementSize_24]) (simp add: Mcan_DataLength_defs)
  next
    case 6 then show ?thesis by (intro exI[of _ Mcan_ElementSize_32]) (simp add: Mcan_DataLength_defs)
  next
    case 7 then show ?thesis by (intro exI[of _ Mcan_ElementSize_48]) (simp add: Mcan_DataLength_defs)
  next
    case 8 then show ?thesis by (intro exI[of _ Mcan_ElementSize_64]) (simp add: Mcan_DataLength_defs)
  qed
qed

section \<open>Register accesses of the configuration steps\<close>

lemma events_since_append [simp]: "trace w' = trace w @ es \<Longrightarrow> events_since w w' = es"
  by (simp add: events_since_def)

lemma written_regs_append [simp]: "written_regs (es @ fs) = written_regs es @ written_regs fs"
  by (induction es rule: written_regs.induct) simp_all

lemma read_regs_append [simp]: "read_regs (es @ fs) = read_regs es @ read_regs fs"
  by (induction es rule: read_regs.induct) simp_all

lemma written_regs_map_Rd [simp]: "written_regs (map (Rd r) vs) = []"
  by (induction vs) simp_all

lemma read_regs_map_Rd [simp]: "read_regs (map (Rd r) vs) = replicate (length vs) r"
  by (induction vs) simp_all

lemma config_step_refl [simp]: "config_step S w w"
  by (simp add: config_step_def)

lemma config_step_trans:
  "config_step S w w1 \<Longrightarrow> config_step S w1 w2 \<Longrightarrow> config_step S w w2"
  unfolding config_step_def by auto

lemma config_step_events:
  "config_step S w w' \<Longrightarrow> set (written_regs (events_since w w')) \<subseteq> S"
  unfolding config_step_def by auto

lemma reg_read_eq:
  "reg_read E r w =
     (fst (hw_read E r (dev w)),
      w\<lparr>dev := snd (hw_read E r (dev w)), trace := trace w @ [Rd r (fst (hw_read E r (dev w)))]\<rparr>)"
  by (simp add: reg_read_def case_prod_unfold Let_def)

lemma step_reg_read: "config_step S w0 w \<Longrightarrow> config_step S w0 (snd (reg_read E r w))"
  unfolding config_step_def by (auto simp: reg_read_eq)

lemma step_reg_write: "r \<in> S \<Longrightarrow> config_step S w0 w \<Longrightarrow> config_step S w0 (reg_write E r v w)"
  unfolding config_step_def by (auto simp: reg_write_def)

lemma step_reg_or: "r \<in> S \<Longrightarrow> config_step S w0 w \<Longrightarrow> config_step S w0 (reg_or E r m w)"
  unfolding reg_or_def case_prod_unfold Let_def by (intro step_reg_write step_reg_read)

lemma step_reg_and: "r \<in> S \<Longrightarrow> config_step S w0 w \<Longrightarrow> config_step S w0 (reg_and E r m w)"
  unfolding reg_and_def case_prod_unfold Let_def by (intro step_reg_write step_reg_read)

lemma step_changeBitAtOffset:
  "r \<in> S \<Longrightarrow> config_step S w0 w \<Longrightarrow> config_step S w0 (changeBitAtOffset E r k b w)"
  unfolding changeBitAtOffset_def case_prod_unfold Let_def
  by (cases b) (simp_all add: step_reg_write step_reg_read)

lemma step_SET_FIELD_VALUE:
  "r \<in> S \<Longrightarrow> config_step S w0 w \<Longrightarrow> config_step S w0 (SET_FIELD_VALUE E f r v w)"
  unfolding SET_FIELD_VALUE_def setValueAtOffset_def case_prod_unfold Let_def
  by (intro step_reg_write step_reg_read)

lemma step_mcan_update:
  "tx m = tx (mcan w) \<Longrightarrow> config_step S w0 w \<Longrightarrow> config_step S w0 (w\<lparr>mcan := m\<rparr>)"
  unfolding config_step_def by auto

lemma step_waitForRegister_loop:
  "config_step S w0 w \<Longrightarrow> config_step S w0 (snd (waitForRegister_loop E r msk timeout counter w))"
proof (induction E r msk timeout counter w rule: waitForRegister_loop.induct)
  case (1 E address msk timeout counter w)
  show ?case
  proof (cases "counter < timeout")
    case False
    then show ?thesis using "1.prems" by (simp add: waitForRegister_loop.simps)
  next
    case True
    obtain v w1 where rd: "reg_read E address w = (v, w1)" by (cases "reg_read E address w")
    have s1: "config_step S w0 w1" using step_reg_read [OF "1.prems", of E address] rd by simp
    show ?thesis
    proof (cases "v AND msk \<noteq> 0")
      case True
      with \<open>counter < timeout\<close> rd s1 show ?thesis
        by (subst waitForRegister_loop.simps) simp
    next
      case False
      with \<open>counter < timeout\<close> rd "1.IH" [OF True rd [symmetric] _ s1] show ?thesis
        by (subst waitForRegister_loop.simps) simp
    qed
  qed
qed

lemma step_waitForRegisterWithTimeout:
  "config_step S w0 w \<Longrightarrow> config_step S w0 (snd (waitForRegisterWithTimeout E r msk t w))"
  unfolding waitForRegisterWithTimeout_def by (rule step_waitForRegister_loop)

lemma step_fold:
  "(\<And>i s. config_step S w0 s \<Longrightarrow> config_step S w0 (f i s)) \<Longrightarrow>
   config_step S w0 w \<Longrightarrow> config_step S w0 (fold f xs w)"
  by (induction xs arbitrary: w) simp_all

lemmas step_intros =
  step_reg_write step_reg_or step_reg_and step_changeBitAtOffset step_SET_FIELD_VALUE
  step_mcan_update step_waitForRegisterWithTimeout

lemma step_setMsgRamBaseAddress:
  "CANDMABA \<in> S \<Longrightarrow> config_step S w0 w \<Longrightarrow> config_step S w0 (setMsgRamBaseAddress E config w)"
  unfolding setMsgRamBaseAddress_def Let_def by (intro step_intros) simp_all

lemma step_setMode:
  "CCCR \<in> S \<Longrightarrow> TEST \<in> S \<Longrightarrow> config_step S w0 w \<Longrightarrow>
   config_step S w0 (snd (setMode E config t w))"
  unfolding setMode_def setPowerDownMode_def Let_def
  by (cases "Config_mode config")
     (auto simp: case_prod_unfold returnError_def split: result.splits intro!: step_intros)

lemma step_setNominalTiming:
  "NBTP \<in> S \<Longrightarrow> config_step S w0 w \<Longrightarrow> config_step S w0 (snd (setNominalTiming E config w))"
  unfolding setNominalTiming_def Let_def by (auto intro!: step_intros)

lemma step_setDataTiming:
  "DBTP \<in> S \<Longrightarrow> config_step S w0 w \<Longrightarrow> config_step S w0 (snd (setDataTiming E config w))"
  unfolding setDataTiming_def Let_def by (auto intro!: step_intros)

lemma step_setTransmitterDelayCompensation:
  "DBTP \<in> S \<Longrightarrow> TDCR \<in> S \<Longrightarrow> config_step S w0 w \<Longrightarrow>
   config_step S w0 (setTransmitterDelayCompensation E c w)"
  unfolding setTransmitterDelayCompensation_def Let_def by (auto intro!: step_intros)

lemma step_setTimestamp:
  "TSCC \<in> S \<Longrightarrow> TSCV \<in> S \<Longrightarrow> config_step S w0 w \<Longrightarrow> config_step S w0 (setTimestamp E config w)"
  unfolding setTimestamp_def Let_def by (auto intro!: step_intros)

lemma step_setTimeout:
  "TOCC \<in> S \<Longrightarrow> config_step S w0 w \<Longrightarrow> config_step S w0 (setTimeout E c w)"
  unfolding setTimeout_def by (auto intro!: step_intros)

lemma step_setStandardIdFiltering:
  "GFC \<in> S \<Longrightarrow> SIDFC \<in> S \<Longrightarrow> config_step S w0 w \<Longrightarrow>
   config_step S w0 (setStandardIdFiltering E config w)"
  unfolding setStandardIdFiltering_def Let_def by (auto intro!: step_intros)

lemma step_setExtendedIdFiltering:
  "GFC \<in> S \<Longrightarrow> XIDFC \<in> S \<Longrightarrow> config_step S w0 w \<Longrightarrow>
   config_step S w0 (setExtendedIdFiltering E config w)"
  unfolding setExtendedIdFiltering_def Let_def by (auto intro!: step_intros)

lemma step_setRxFifo0:
  "RXESC \<in> S \<Longrightarrow> RXF0C \<in> S \<Longrightarrow> config_step S w0 w \<Longrightarrow> config_step S w0 (setRxFifo0 E config w)"
  unfolding setRxFifo0_def Let_def by (auto intro!: step_intros)

lemma step_setRxFifo1:
  "RXESC \<in> S \<Longrightarrow> RXF1C \<in> S \<Longrightarrow> config_step S w0 w \<Longrightarrow> config_step S w0 (setRxFifo1 E config w)"
  unfolding setRxFifo1_def Let_def by (auto intro!: step_intros)

lemma step_setRxBuffer:
  "RXESC \<in> S \<Longrightarrow> RXBC \<in> S \<Longrightarrow> config_step S w0 w \<Longrightarrow> config_step S w0 (setRxBuffer E config w)"
  unfolding setRxBuffer_def Let_def by (auto intro!: step_intros)

lemma step_setTxEventFifo:
  "TXEFC \<in> S \<Longrightarrow> config_step S w0 w \<Longrightarrow> config_step S w0 (setTxEventFifo E config w)"
  unfolding setTxEventFifo_def Let_def by (auto intro!: step_intros)

lemma step_setInterrupt_step:
  "IR \<in> S \<Longrightarrow> IE \<in> S \<Longrightarrow> ILS \<in> S \<Longrightarrow> config_step S w0 w \<Longrightarrow>
   config_step S w0 (setInterrupt_step E config i w)"
  unfolding setInterrupt_step_def Let_def by (auto intro!: step_intros)

lemma step_setInterrupts:
  "IR \<in> S \<Longrightarrow> IE \<in> S \<Longrightarrow> ILS \<in> S \<Longrightarrow> ILE \<in> S \<Longrightarrow> TXBTIE \<in> S \<Longrightarrow> TXBCIE \<in> S \<Longrightarrow>
   config_step S w0 w \<Longrightarrow> config_step S w0 (setInterrupts E config w)"
  unfolding setInterrupts_def Let_def
  by (intro step_intros step_fold step_setInterrupt_step)


lemma andThen_Success [simp]: "andThen (Success, s) k = k s"
  by (simp add: andThen_def)

lemma andThen_Failed [simp]: "andThen (Failed e, s) k = (Failed e, s)"
  by (simp add: andThen_def)

lemma andThen_Aborted [simp]: "andThen (Aborted, s) k = (Aborted, s)"
  by (simp add: andThen_def)

lemma andThen_cases:
  "andThen m k = (if fst m = Success then k (snd m) else m)"
  by (cases m; cases "fst m") (auto simp: andThen_def)

lemma step_andThen:
  "config_step S w0 (snd m) \<Longrightarrow> (\<And>s. config_step S w0 s \<Longrightarrow> config_step S w0 (snd (k s))) \<Longrightarrow>
   config_step S w0 (snd (andThen m k))"
  by (simp add: andThen_cases)

lemma andThen_not_Success:
  "(\<And>s. fst (k s) \<noteq> Success) \<Longrightarrow> fst (andThen m k) \<noteq> Success"
  by (simp add: andThen_cases)

text \<open>The Tx buffer step when the sizes exceed the limit.\<close>

lemma setTxBuffer_oversized:
  assumes "TxBufferConfig_isEnabled (Config_txBuffer config)"
    and "unat (TxBufferConfig_bufferSize (Config_txBuffer config))
           + unat (TxBufferConfig_queueSize (Config_txBuffer config)) > 32"
  shows "setTxBuffer E config w =
           (if (ucast (decodeTxElementSizeInBytes E
                  (TxBufferConfig_elementSize (Config_txBuffer config))) :: u32)
                 = MCAN_TXELEMENT_SIZE_INVALID E
            then Some False else None, w)"
  using assms by (simp add: setTxBuffer_def Let_def)

lemma setConfig_regions_oversized:
  assumes "TxBufferConfig_isEnabled (Config_txBuffer config)"
    and "unat (TxBufferConfig_bufferSize (Config_txBuffer config))
           + unat (TxBufferConfig_queueSize (Config_txBuffer config)) > 32"
  shows "fst (setConfig_regions E config w) \<noteq> Success"
    and "config_step (- {TXBC, TXESC}) w0 w \<Longrightarrow>
         config_step (- {TXBC, TXESC}) w0 (snd (setConfig_regions E config w))"
proof -
  show "fst (setConfig_regions E config w) \<noteq> Success"
    by (simp add: setConfig_regions_def Let_def setTxBuffer_oversized [OF assms] returnError_def)
  assume a: "config_step (- {TXBC, TXESC}) w0 w"
  have "config_step (- {TXBC, TXESC}) w0
          (setRxBuffer E config (setRxFifo1 E config (setRxFifo0 E config
            (setExtendedIdFiltering E config (setStandardIdFiltering E config
              (setTimeout E (Config_timeout config) (setTimestamp E config w)))))))"
    by (intro step_setRxBuffer step_setRxFifo1 step_setRxFifo0 step_setExtendedIdFiltering
        step_setStandardIdFiltering step_setTimeout step_setTimestamp a) simp_all
  then show "config_step (- {TXBC, TXESC}) w0 (snd (setConfig_regions E config w))"
    by (simp add: setConfig_regions_def Let_def setTxBuffer_oversized [OF assms] returnError_def)
qed

lemma Mcan_setConfig_oversized:
  assumes "TxBufferConfig_isEnabled (Config_txBuffer config)"
    and "unat (TxBufferConfig_bufferSize (Config_txBuffer config))
           + unat (TxBufferConfig_queueSize (Config_txBuffer config)) > 32"
  shows "fst (Mcan_setConfig E config t w) \<noteq> Success"
    and "config_step (- {TXBC, TXESC}) w (snd (Mcan_setConfig E config t w))"
proof -
  show "fst (Mcan_setConfig E config t w) \<noteq> Success"
    by (simp add: Mcan_setConfig_def Let_def case_prod_unfold returnError_def
        andThen_not_Success setConfig_regions_oversized(1) [OF assms])
  let ?S = "- {TXBC, TXESC}"
  let ?w2 = "reg_write E CCCR (MASK E ''MCAN_CCCR_INIT'') (setMsgRamBaseAddress E config w)"
  let ?w3 = "snd (waitForRegisterWithTimeout E CCCR (MASK E ''MCAN_CCCR_INIT'') t ?w2)"
  let ?w6 = "reg_write E GFC 0
               (reg_write E CCCR (MASK E ''MCAN_CCCR_CCE'' OR MASK E ''MCAN_CCCR_INIT'')
                 (reg_or E CCCR (MASK E ''MCAN_CCCR_CCE'') ?w3))"
  have s3: "config_step ?S w ?w3"
    by (intro step_intros step_setMsgRamBaseAddress) simp_all
  have s6: "config_step ?S w ?w6"
    by (intro step_intros s3) simp_all
  have tail: "config_step ?S w
     (snd (andThen (setMode E config t ?w6) (\<lambda>w7.
           andThen (setNominalTiming E config w7) (\<lambda>w8.
           andThen (if Config_isFdEnabled config then
                      andThen (setDataTiming E config w8) (\<lambda>w9.
                        (Success, setTransmitterDelayCompensation E
                           (Config_transmitterDelayCompensation config) w9))
                    else (Success, w8))
             (setConfig_regions E config)))))"
    by (intro step_andThen step_setMode step_setNominalTiming s6
          setConfig_regions_oversized(2) [OF assms])
       (auto intro!: step_andThen step_setDataTiming step_setTransmitterDelayCompensation)
  show "config_step ?S w (snd (Mcan_setConfig E config t w))"
    using s3 tail by (simp add: Mcan_setConfig_def Let_def case_prod_unfold)
qed

section \<open>Element Codec: data length codes\<close>

text \<open>
  C5. For every data length code from 0 to 8, \<open>decodeDataLengthCode\<close> returns that code as
  the length, for both values of the CAN-FD flag; for every code from 9 to 15, decoding
  with the CAN-FD flag false returns 8.
\<close>

theorem C5_decodeDataLengthCode:
  "(dlc \<le> 8 \<longrightarrow> decodeDataLengthCode dlc isCanFdFrame = dlc) \<and>
   (9 \<le> dlc \<and> dlc \<le> 15 \<longrightarrow> decodeDataLengthCode dlc False = 8)"
  by (auto simp: decodeDataLengthCode_def Mcan_DataLengthRaw_8_def word_le_nat_alt)

theorem C5_decodeDataLengthCode_witness:
  "(5 :: u8) \<le> 8 \<and> decodeDataLengthCode 5 True = 5 \<and> decodeDataLengthCode 5 False = 5
   \<and> (9 :: u8) \<le> 13 \<and> (13 :: u8) \<le> 15 \<and> decodeDataLengthCode 13 False = 8"
  using C5_decodeDataLengthCode [of 5 True] C5_decodeDataLengthCode [of 5 False]
    C5_decodeDataLengthCode [of 13 False]
  by simp

section \<open>Element Codec: element sizes\<close>

lemma decodeTx_regfile_ne_10:
  "10 \<noteq> decodeTxElementSizeInBytes regfile_env y"
  by (cases y) (simp_all add: decodeTxElementSizeInBytes_def regfile_env_def mcan_env_def Mcan_DataLength_defs)

lemma decodeRx_regfile_ne_10:
  "10 \<noteq> decodeRxElementSizeInBytes regfile_env y"
  by (cases y) (simp_all add: decodeRxElementSizeInBytes_def regfile_env_def mcan_env_def Mcan_DataLength_defs)

text \<open>
  C6. For each of the eight legal element-size selectors, \<open>encodeTxElementSizeInBytes\<close>
  inverts \<open>decodeTxElementSizeInBytes\<close> and \<open>encodeRxElementSizeInBytes\<close> inverts
  \<open>decodeRxElementSizeInBytes\<close>; and each encode function returns the invalid element size
  for every byte count that is not the decoded size of a legal selector. This holds for
  every number of header words before the data of an element; with two header words, 10
  is such a byte count.
\<close>

theorem C6_element_size_codec:
  "(x \<noteq> Mcan_ElementSize_Invalid \<longrightarrow>
      encodeTxElementSizeInBytes L (decodeTxElementSizeInBytes L x) = x
      \<and> encodeRxElementSizeInBytes L (decodeRxElementSizeInBytes L x) = x)
   \<and> ((\<forall>y. y \<noteq> Mcan_ElementSize_Invalid \<longrightarrow> n \<noteq> decodeTxElementSizeInBytes L y) \<longrightarrow>
        encodeTxElementSizeInBytes L n = Mcan_ElementSize_Invalid)
   \<and> ((\<forall>y. y \<noteq> Mcan_ElementSize_Invalid \<longrightarrow> n \<noteq> decodeRxElementSizeInBytes L y) \<longrightarrow>
        encodeRxElementSizeInBytes L n = Mcan_ElementSize_Invalid)"
proof (intro conjI impI)
  assume "x \<noteq> Mcan_ElementSize_Invalid"
  then show "encodeTxElementSizeInBytes L (decodeTxElementSizeInBytes L x) = x"
    by (simp add: encodeTxElementSizeInBytes_def decodeTxElementSizeInBytes_def
        u8_offset_roundtrip encodeElementSize_decode)
next
  assume "x \<noteq> Mcan_ElementSize_Invalid"
  then show "encodeRxElementSizeInBytes L (decodeRxElementSizeInBytes L x) = x"
    by (simp add: encodeRxElementSizeInBytes_def decodeRxElementSizeInBytes_def
        u8_offset_roundtrip encodeElementSize_decode)
next
  assume a: "\<forall>y. y \<noteq> Mcan_ElementSize_Invalid \<longrightarrow> n \<noteq> decodeTxElementSizeInBytes L y"
  show "encodeTxElementSizeInBytes L n = Mcan_ElementSize_Invalid"
  proof (rule ccontr)
    assume "encodeTxElementSizeInBytes L n \<noteq> Mcan_ElementSize_Invalid"
    then obtain y where y: "y \<noteq> Mcan_ElementSize_Invalid"
      and "(ucast ((ucast n :: u32) - MCAN_TXELEMENT_DATA_WORD L * 4) :: u8) = decodeElementSizeInBytes y"
      unfolding encodeTxElementSizeInBytes_def using encodeElementSize_valid by blast
    then have "n = decodeTxElementSizeInBytes L y"
      by (simp add: decodeTxElementSizeInBytes_def u8_offset_inverse)
    with a y show False by blast
  qed
next
  assume a: "\<forall>y. y \<noteq> Mcan_ElementSize_Invalid \<longrightarrow> n \<noteq> decodeRxElementSizeInBytes L y"
  show "encodeRxElementSizeInBytes L n = Mcan_ElementSize_Invalid"
  proof (rule ccontr)
    assume "encodeRxElementSizeInBytes L n \<noteq> Mcan_ElementSize_Invalid"
    then obtain y where y: "y \<noteq> Mcan_ElementSize_Invalid"
      and "(ucast ((ucast n :: u32) - MCAN_RXELEMENT_DATA_WORD L * 4) :: u8) = decodeElementSizeInBytes y"
      unfolding encodeRxElementSizeInBytes_def using encodeElementSize_valid by blast
    then have "n = decodeRxElementSizeInBytes L y"
      by (simp add: decodeRxElementSizeInBytes_def u8_offset_inverse)
    with a y show False by blast
  qed
qed

theorem C6_element_size_codec_witness:
  "Mcan_ElementSize_24 \<noteq> Mcan_ElementSize_Invalid
   \<and> encodeTxElementSizeInBytes regfile_env (decodeTxElementSizeInBytes regfile_env Mcan_ElementSize_24)
       = Mcan_ElementSize_24
   \<and> encodeRxElementSizeInBytes regfile_env (decodeRxElementSizeInBytes regfile_env Mcan_ElementSize_24)
       = Mcan_ElementSize_24
   \<and> (\<forall>y. 10 \<noteq> decodeTxElementSizeInBytes regfile_env y)
   \<and> encodeTxElementSizeInBytes regfile_env 10 = Mcan_ElementSize_Invalid
   \<and> (\<forall>y. 10 \<noteq> decodeRxElementSizeInBytes regfile_env y)
   \<and> encodeRxElementSizeInBytes regfile_env 10 = Mcan_ElementSize_Invalid"
  using C6_element_size_codec [of Mcan_ElementSize_24 regfile_env 10]
    decodeTx_regfile_ne_10 decodeRx_regfile_ne_10
  by simp


section \<open>Facts about the concrete controller\<close>

lemma field_offset_TFQF: "OFFSET regfile_env ''MCAN_TXFQS_TFQF'' = 21"
  by (simp add: regfile_env_def mcan_env_def field_offset_def mcan_fields_def)

lemma field_TFQPI: "OFFSET regfile_env ''MCAN_TXFQS_TFQPI'' = 16 \<and> MASK regfile_env ''MCAN_TXFQS_TFQPI'' = 0x1F0000"
  by (simp add: regfile_env_def mcan_env_def field_offset_def field_mask_def mcan_fields_def mask_eq_exp_minus_1)

lemma encodeDataLengthCode_10: "encodeDataLengthCode 10 = Mcan_DataLengthCode_Invalid"
  by (simp add: encodeDataLengthCode_def Mcan_DataLength_defs)

section \<open>Transmit Path: rejected requests\<close>

text \<open>
  C7. For every index greater than or equal to the configured number of dedicated Tx
  buffers (the index equal to it included), \<open>Mcan_txBufferAdd\<close> fails with
  \<open>IndexOutOfRange\<close> and returns the world it was given: it accesses no register, so it
  sets no add-request bit, and it writes nothing to the message RAM.
\<close>

theorem C7_txBufferAdd_index_out_of_range:
  assumes "index \<ge> Tx_bufferSize (tx (mcan w))"
  shows "Mcan_txBufferAdd E element index w = (Failed Mcan_ErrorCode_IndexOutOfRange, w)
         \<and> events_since w (snd (Mcan_txBufferAdd E element index w)) = []
         \<and> ram (snd (Mcan_txBufferAdd E element index w)) = ram w"
  using assms by (simp add: Mcan_txBufferAdd_def returnError_def events_since_def)

theorem C7_txBufferAdd_index_out_of_range_witness:
  "(4 :: u8) \<ge> Tx_bufferSize (tx (mcan (configured_world zero_regs)))
   \<and> Mcan_txBufferAdd regfile_env (example_element 8) 4 (configured_world zero_regs)
       = (Failed Mcan_ErrorCode_IndexOutOfRange, configured_world zero_regs)
   \<and> events_since (configured_world zero_regs)
        (snd (Mcan_txBufferAdd regfile_env (example_element 8) 4 (configured_world zero_regs))) = []
   \<and> ram (snd (Mcan_txBufferAdd regfile_env (example_element 8) 4 (configured_world zero_regs)))
       = ram (configured_world zero_regs)"
proof -
  have h: "(4 :: u8) \<ge> Tx_bufferSize (tx (mcan (configured_world zero_regs)))"
    by (simp add: configured_world_def configured_mcan_def)
  from h C7_txBufferAdd_index_out_of_range [OF h, of regfile_env "example_element 8"]
  show ?thesis by blast
qed

text \<open>
  C3. When the Tx queue-full flag is set in the value read from TXFQS, \<open>Mcan_txQueuePush\<close>
  fails with \<open>TxFifoFull\<close> and stores nothing through \<^verbatim>\<open>index\<close>. Its only access to the
  device is that one read of TXFQS: it writes no register, and the message RAM (all slot
  contents) and the descriptor are unchanged.
\<close>

theorem C3_txQueuePush_full:
  assumes "IS_BIT_SET E ''MCAN_TXFQS_TFQF'' (fst (hw_read E TXFQS (dev w)))"
  shows "Mcan_txQueuePush E element w =
           (Failed Mcan_ErrorCode_TxFifoFull, None,
            w\<lparr>dev := snd (hw_read E TXFQS (dev w)),
              trace := trace w @ [Rd TXFQS (fst (hw_read E TXFQS (dev w)))]\<rparr>)
         \<and> written_regs (events_since w (snd (snd (Mcan_txQueuePush E element w)))) = []
         \<and> ram (snd (snd (Mcan_txQueuePush E element w))) = ram w
         \<and> mcan (snd (snd (Mcan_txQueuePush E element w))) = mcan w"
  using assms
  by (simp add: Mcan_txQueuePush_def reg_read_def returnError_def events_since_def
      case_prod_unfold Let_def)

theorem C3_txQueuePush_full_witness:
  "IS_BIT_SET regfile_env ''MCAN_TXFQS_TFQF''
     (fst (hw_read regfile_env TXFQS (dev (configured_world (zero_regs(TXFQS := 0x200000))))))
   \<and> fst (Mcan_txQueuePush regfile_env (example_element 8)
            (configured_world (zero_regs(TXFQS := 0x200000))))
       = Failed Mcan_ErrorCode_TxFifoFull
   \<and> written_regs (events_since (configured_world (zero_regs(TXFQS := 0x200000)))
        (snd (snd (Mcan_txQueuePush regfile_env (example_element 8)
            (configured_world (zero_regs(TXFQS := 0x200000))))))) = []"
proof -
  have h: "IS_BIT_SET regfile_env ''MCAN_TXFQS_TFQF''
     (fst (hw_read regfile_env TXFQS (dev (configured_world (zero_regs(TXFQS := 0x200000))))))"
    by (simp add: IS_BIT_SET_def isBitSet_def isFieldSet_def field_offset_TFQF
        configured_world_def init_world_def)
       (simp add: regfile_env_def mcan_env_def)
  from h C3_txQueuePush_full [OF h, of "example_element 8"]
  show ?thesis by simp
qed


text \<open>
  C10. When the queue is not full and the data size of the element has no data length
  code, \<open>Mcan_txQueuePush\<close> fails with \<open>ElementSizeInvalid\<close>; the message RAM is unchanged
  and no register is written (the add-request register TXBAR among them), yet the put
  index read from TXFQS has been stored through \<^verbatim>\<open>index\<close>. The constant
  \<^verbatim>\<open>MCAN_DLC_INVALID\<close> of the absent header is taken to be the invalid data length code.
\<close>

theorem C10_txQueuePush_invalid_size:
  assumes "\<not> IS_BIT_SET E ''MCAN_TXFQS_TFQF'' (fst (hw_read E TXFQS (dev w)))"
    and "MCAN_DLC_INVALID E = ucast Mcan_DataLengthCode_Invalid"
    and "encodeDataLengthCode (TxElement_dataSize element) = Mcan_DataLengthCode_Invalid"
  shows "Mcan_txQueuePush E element w =
           (Failed Mcan_ErrorCode_ElementSizeInvalid,
            Some (ucast (GET_FIELD_VALUE E ''MCAN_TXFQS_TFQPI'' (fst (hw_read E TXFQS (dev w))))),
            w\<lparr>dev := snd (hw_read E TXFQS (dev w)),
              trace := trace w @ [Rd TXFQS (fst (hw_read E TXFQS (dev w)))]\<rparr>)
         \<and> written_regs (events_since w (snd (snd (Mcan_txQueuePush E element w)))) = []
         \<and> ram (snd (snd (Mcan_txQueuePush E element w))) = ram w"
  using assms
  by (simp add: Mcan_txQueuePush_def txAddElement_def reg_read_def returnError_def
      events_since_def case_prod_unfold Let_def)

theorem C10_txQueuePush_invalid_size_witness:
  "\<not> IS_BIT_SET regfile_env ''MCAN_TXFQS_TFQF''
       (fst (hw_read regfile_env TXFQS (dev (configured_world (zero_regs(TXFQS := 0x50004))))))
   \<and> MCAN_DLC_INVALID regfile_env = ucast Mcan_DataLengthCode_Invalid
   \<and> encodeDataLengthCode (TxElement_dataSize (example_element 10)) = Mcan_DataLengthCode_Invalid
   \<and> fst (Mcan_txQueuePush regfile_env (example_element 10)
            (configured_world (zero_regs(TXFQS := 0x50004))))
       = Failed Mcan_ErrorCode_ElementSizeInvalid
   \<and> fst (snd (Mcan_txQueuePush regfile_env (example_element 10)
            (configured_world (zero_regs(TXFQS := 0x50004))))) = Some 5
   \<and> ram (snd (snd (Mcan_txQueuePush regfile_env (example_element 10)
            (configured_world (zero_regs(TXFQS := 0x50004))))))
       = ram (configured_world (zero_regs(TXFQS := 0x50004)))"
proof -
  have rd: "fst (hw_read regfile_env TXFQS (dev (configured_world (zero_regs(TXFQS := 0x50004)))))
              = 0x50004"
    by (simp add: regfile_env_def mcan_env_def configured_world_def init_world_def)
  have h1: "\<not> IS_BIT_SET regfile_env ''MCAN_TXFQS_TFQF''
       (fst (hw_read regfile_env TXFQS (dev (configured_world (zero_regs(TXFQS := 0x50004))))))"
    by (simp add: rd IS_BIT_SET_def isBitSet_def isFieldSet_def field_offset_TFQF)
  have h2: "MCAN_DLC_INVALID regfile_env = ucast Mcan_DataLengthCode_Invalid"
    by (simp add: regfile_env_def mcan_env_def Mcan_DataLengthCode_Invalid_def)
  have h3: "encodeDataLengthCode (TxElement_dataSize (example_element 10))
              = Mcan_DataLengthCode_Invalid"
    by (simp add: example_element_def encodeDataLengthCode_10)
  have ix: "(ucast (GET_FIELD_VALUE regfile_env ''MCAN_TXFQS_TFQPI'' 0x50004) :: u8) = 5"
    by (simp add: GET_FIELD_VALUE_def getValueAtOffset_def field_TFQPI)
  from h1 h2 h3 C10_txQueuePush_invalid_size [OF h1 h2 h3] rd ix
  show ?thesis by simp
qed


section \<open>Receive Path: empty FIFO\<close>

text \<open>
  C4. For a configured Rx FIFO (0 or 1: the address in its descriptor is not \<^verbatim>\<open>NULL\<close>)
  whose fill level reads 0, \<open>Mcan_rxFifoPull\<close> fails with \<open>RxFifoEmpty\<close> and stores nothing
  through \<^verbatim>\<open>element\<close>. Its only access to the device is the read of the FIFO's status
  register: it writes no register, the acknowledge register included, and the message
  RAM and the descriptor are unchanged.
\<close>

theorem C4_rxFifoPull_empty:
  assumes "RxFifo_address (rxFifo_of fifoId (mcan w)) \<noteq> NULL"
    and "(ucast (GET_FIELD_VALUE E ''MCAN_RXF0S_F0FL''
            (fst (hw_read E (rxFifo_status_reg fifoId) (dev w)))) :: u8) = 0"
  shows "Mcan_rxFifoPull E fifoId w =
           (Failed Mcan_ErrorCode_RxFifoEmpty, None,
            w\<lparr>dev := snd (hw_read E (rxFifo_status_reg fifoId) (dev w)),
              trace := trace w @ [Rd (rxFifo_status_reg fifoId)
                                    (fst (hw_read E (rxFifo_status_reg fifoId) (dev w)))]\<rparr>)
         \<and> written_regs (events_since w (snd (snd (Mcan_rxFifoPull E fifoId w)))) = []
         \<and> ram (snd (snd (Mcan_rxFifoPull E fifoId w))) = ram w
         \<and> mcan (snd (snd (Mcan_rxFifoPull E fifoId w))) = mcan w"
  using assms
  by (cases fifoId)
     (simp_all add: Mcan_rxFifoPull_def reg_read_def returnError_def events_since_def
        case_prod_unfold Let_def)

theorem C4_rxFifoPull_empty_witness:
  "RxFifo_address (rxFifo_of Mcan_RxFifoId_0 (mcan (configured_world zero_regs))) \<noteq> NULL
   \<and> (ucast (GET_FIELD_VALUE regfile_env ''MCAN_RXF0S_F0FL''
         (fst (hw_read regfile_env (rxFifo_status_reg Mcan_RxFifoId_0)
                (dev (configured_world zero_regs))))) :: u8) = 0
   \<and> fst (Mcan_rxFifoPull regfile_env Mcan_RxFifoId_0 (configured_world zero_regs))
       = Failed Mcan_ErrorCode_RxFifoEmpty
   \<and> written_regs (events_since (configured_world zero_regs)
        (snd (snd (Mcan_rxFifoPull regfile_env Mcan_RxFifoId_0 (configured_world zero_regs))))) = []"
proof -
  have h1: "RxFifo_address (rxFifo_of Mcan_RxFifoId_0 (mcan (configured_world zero_regs))) \<noteq> NULL"
    by (simp add: configured_world_def configured_mcan_def NULL_def)
  have h2: "(ucast (GET_FIELD_VALUE regfile_env ''MCAN_RXF0S_F0FL''
         (fst (hw_read regfile_env (rxFifo_status_reg Mcan_RxFifoId_0)
                (dev (configured_world zero_regs))))) :: u8) = 0"
    by (simp add: GET_FIELD_VALUE_def getValueAtOffset_def configured_world_def init_world_def
        zero_regs_def)
       (simp add: regfile_env_def mcan_env_def)
  from h1 h2 C4_rxFifoPull_empty [OF h1 h2]
  show ?thesis by simp
qed

section \<open>Interrupt/Status Aggregator: reading and clearing the flags\<close>

text \<open>
  C9. \<open>Mcan_getInterruptStatus\<close> makes exactly two register accesses: one read of IR,
  then one write to IR of exactly the value read. Each member of the returned status
  tells whether the value read has a bit of the member's mask set. The message RAM and
  the descriptor are unchanged.
\<close>

theorem C9_getInterruptStatus:
  "events_since w (snd (Mcan_getInterruptStatus E w))
     = [Rd IR (fst (hw_read E IR (dev w))), Wr IR (fst (hw_read E IR (dev w)))]
   \<and> dev (snd (Mcan_getInterruptStatus E w))
       = hw_write E IR (fst (hw_read E IR (dev w))) (snd (hw_read E IR (dev w)))
   \<and> ram (snd (Mcan_getInterruptStatus E w)) = ram w
   \<and> mcan (snd (Mcan_getInterruptStatus E w)) = mcan w
   \<and> fst (Mcan_getInterruptStatus E w) =
       (let flags = fst (hw_read E IR (dev w)) in
        \<lparr>hasRf0nOccurred = isFieldSet flags (MASK E ''MCAN_IR_RF0N''),
         hasRf0wOccurred = isFieldSet flags (MASK E ''MCAN_IR_RF0W''),
         hasRf0fOccurred = isFieldSet flags (MASK E ''MCAN_IR_RF0F''),
         hasRf0lOccurred = isFieldSet flags (MASK E ''MCAN_IR_RF0L''),
         hasRf1nOccurred = isFieldSet flags (MASK E ''MCAN_IR_RF1N''),
         hasRf1wOccurred = isFieldSet flags (MASK E ''MCAN_IR_RF1W''),
         hasRf1fOccurred = isFieldSet flags (MASK E ''MCAN_IR_RF1F''),
         hasRf1lOccurred = isFieldSet flags (MASK E ''MCAN_IR_RF1L''),
         hasHpmOccurred = isFieldSet flags (MASK E ''MCAN_IR_HPM''),
         hasTcOccurred = isFieldSet flags (MASK E ''MCAN_IR_TC''),
         hasTcfOccurred = isFieldSet flags (MASK E ''MCAN_IR_TCF''),
         hasTfeOccurred = isFieldSet flags (MASK E ''MCAN_IR_TFE''),
         hasTefnOccurred = isFieldSet flags (MASK E ''MCAN_IR_TEFN''),
         hasTefwOccurred = isFieldSet flags (MASK E ''MCAN_IR_TEFW''),
         hasTeffOccurred = isFieldSet flags (MASK E ''MCAN_IR_TEFF''),
         hasTeflOccurred = isFieldSet flags (MASK E ''MCAN_IR_TEFL''),
         hasTswOccurred = isFieldSet flags (MASK E ''MCAN_IR_TSW''),
         hasMrafOccurred = isFieldSet flags (MASK E ''MCAN_IR_MRAF''),
         hasTooOccurred = isFieldSet flags (MASK E ''MCAN_IR_TOO''),
         hasDrxOccurred = isFieldSet flags (MASK E ''MCAN_IR_DRX''),
         hasEloOccurred = isFieldSet flags (MASK E ''MCAN_IR_ELO''),
         hasEpOccurred = isFieldSet flags (MASK E ''MCAN_IR_EP''),
         hasEwOccurred = isFieldSet flags (MASK E ''MCAN_IR_EW''),
         hasBoOccurred = isFieldSet flags (MASK E ''MCAN_IR_BO''),
         hasWdiOccurred = isFieldSet flags (MASK E ''MCAN_IR_WDI''),
         hasPeaOccurred = isFieldSet flags (MASK E ''MCAN_IR_PEA''),
         hasPedOccurred = isFieldSet flags (MASK E ''MCAN_IR_PED''),
         hasAraOccurred = isFieldSet flags (MASK E ''MCAN_IR_ARA'')\<rparr>)"
  by (simp add: Mcan_getInterruptStatus_def reg_read_def reg_write_def events_since_def
      isFieldSet_def case_prod_unfold Let_def)


section \<open>Configuration/Mode Sequencer: initialization timeout\<close>

lemma waitForRegister_loop_never:
  assumes "\<forall>h. fst (hw_read E r h) AND msk = 0"
  shows "fst (waitForRegister_loop E r msk timeout counter w) = False
       \<and> (\<exists>vs. length vs = timeout - counter
             \<and> trace (snd (waitForRegister_loop E r msk timeout counter w))
                 = trace w @ map (Rd r) vs)"
  using assms
proof (induction E r msk timeout counter w rule: waitForRegister_loop.induct)
  case (1 E address msk timeout counter w)
  show ?case
  proof (cases "counter < timeout")
    case False
    then show ?thesis by (simp add: waitForRegister_loop.simps)
  next
    case True
    let ?v = "fst (hw_read E address (dev w))"
    let ?w1 = "snd (reg_read E address w)"
    have rd: "reg_read E address w = (?v, ?w1)" by (simp add: reg_read_eq)
    have nz: "\<not> (?v AND msk \<noteq> 0)" using "1.prems" by simp
    have unfold: "waitForRegister_loop E address msk timeout counter w
                  = waitForRegister_loop E address msk timeout (Suc counter) ?w1"
      using True nz by (subst waitForRegister_loop.simps) (simp add: reg_read_eq)
    from "1.IH" [OF True rd [symmetric] nz "1.prems"]
    obtain vs where f: "fst (waitForRegister_loop E address msk timeout (Suc counter) ?w1) = False"
      and l: "length vs = timeout - Suc counter"
      and t: "trace (snd (waitForRegister_loop E address msk timeout (Suc counter) ?w1))
                = trace ?w1 @ map (Rd address) vs"
      by blast
    have "trace ?w1 = trace w @ [Rd address ?v]" by (simp add: reg_read_eq)
    with t have "trace (snd (waitForRegister_loop E address msk timeout counter w))
                   = trace w @ map (Rd address) (?v # vs)"
      by (simp add: unfold)
    moreover have "length (?v # vs) = timeout - counter" using l True by simp
    ultimately show ?thesis using f unfold by metis
  qed
qed

lemma trace_setMsgRamBaseAddress:
  "\<exists>a b. trace (setMsgRamBaseAddress E config w) = trace w @ [Rd CANDMABA a, Wr CANDMABA b]"
  by (simp add: setMsgRamBaseAddress_def SET_FIELD_VALUE_def setValueAtOffset_def reg_read_eq
      reg_write_def Let_def)

lemma Mcan_setConfig_never_acked:
  assumes "\<forall>h. fst (hw_read E CCCR h) AND MASK E ''MCAN_CCCR_INIT'' = 0"
  shows "fst (Mcan_setConfig E config t w) = Failed Mcan_ErrorCode_InitializationStartTimeout
       \<and> read_regs (events_since w (snd (Mcan_setConfig E config t w)))
           = CANDMABA # replicate (unat t) CCCR
       \<and> written_regs (events_since w (snd (Mcan_setConfig E config t w))) = [CANDMABA, CCCR]"
proof -
  let ?m = "MASK E ''MCAN_CCCR_INIT''"
  let ?w2 = "reg_write E CCCR ?m (setMsgRamBaseAddress E config w)"
  let ?r = "waitForRegisterWithTimeout E CCCR ?m t ?w2"
  obtain a b where t2: "trace ?w2 = trace w @ [Rd CANDMABA a, Wr CANDMABA b, Wr CCCR ?m]"
    using trace_setMsgRamBaseAddress [of E config w] by (auto simp: reg_write_def)
  from waitForRegister_loop_never [OF assms, of "unat t" 0 ?w2]
  obtain vs where f: "fst ?r = False" and l: "length vs = unat t"
    and t3: "trace (snd ?r) = trace ?w2 @ map (Rd CCCR) vs"
    by (auto simp: waitForRegisterWithTimeout_def)
  have res: "Mcan_setConfig E config t w
               = (Failed Mcan_ErrorCode_InitializationStartTimeout, snd ?r)"
    using f by (simp add: Mcan_setConfig_def Let_def case_prod_unfold returnError_def)
  have "trace (snd ?r) = trace w @ ([Rd CANDMABA a, Wr CANDMABA b, Wr CCCR ?m] @ map (Rd CCCR) vs)"
    using t2 t3 by simp
  then have "events_since w (snd ?r) = [Rd CANDMABA a, Wr CANDMABA b, Wr CCCR ?m] @ map (Rd CCCR) vs"
    by (rule events_since_append)
  then show ?thesis using res l by simp
qed

text \<open>
  C1. If the hardware never sets the initialization acknowledge bit (no read of CCCR has a
  bit of \<^verbatim>\<open>MCAN_CCCR_INIT_MASK\<close> set), \<open>Mcan_setConfig\<close> called with the timeout limit 100
  fails with \<open>InitializationStartTimeout\<close> after exactly 100 reads of CCCR (the only other
  read is the one of the DMA base register before the request). The registers it has
  written are the DMA base register and CCCR: no region-configuration register is
  written.
\<close>

theorem C1_setConfig_init_timeout:
  assumes "\<forall>h. fst (hw_read E CCCR h) AND MASK E ''MCAN_CCCR_INIT'' = 0"
  shows "fst (Mcan_setConfig E config 100 w) = Failed Mcan_ErrorCode_InitializationStartTimeout
       \<and> read_regs (events_since w (snd (Mcan_setConfig E config 100 w)))
           = CANDMABA # replicate 100 CCCR
       \<and> written_regs (events_since w (snd (Mcan_setConfig E config 100 w))) = [CANDMABA, CCCR]
       \<and> set (written_regs (events_since w (snd (Mcan_setConfig E config 100 w))))
           \<inter> region_registers = {}"
  using Mcan_setConfig_never_acked [OF assms, of config 100 w]
  by (simp add: region_registers_def)

theorem C1_setConfig_init_timeout_witness:
  "(\<forall>h. fst (hw_read silent_env CCCR h) AND MASK silent_env ''MCAN_CCCR_INIT'' = 0)
   \<and> fst (Mcan_setConfig silent_env example_config 100 (init_world ()))
       = Failed Mcan_ErrorCode_InitializationStartTimeout
   \<and> read_regs (events_since (init_world ())
        (snd (Mcan_setConfig silent_env example_config 100 (init_world ()))))
       = CANDMABA # replicate 100 CCCR
   \<and> written_regs (events_since (init_world ())
        (snd (Mcan_setConfig silent_env example_config 100 (init_world ()))))
       = [CANDMABA, CCCR]"
proof -
  have h: "\<forall>h. fst (hw_read silent_env CCCR h) AND MASK silent_env ''MCAN_CCCR_INIT'' = 0"
    by (simp add: silent_env_def mcan_env_def)
  from h C1_setConfig_init_timeout [OF h, of example_config "init_world ()"]
  show ?thesis by simp
qed

section \<open>Message RAM Layout Manager: the Tx buffer and queue area\<close>

lemma regfile_hw [simp]:
  "hw_read regfile_env r h = (h r, h)"
  "hw_write regfile_env r v h = h(r := v)"
  by (simp_all add: regfile_env_def mcan_env_def)

lemma regfile_INIT: "MASK regfile_env ''MCAN_CCCR_INIT'' = 1"
  by (simp add: regfile_env_def mcan_env_def field_mask_def mcan_fields_def)

lemma regfile_consts:
  "MCAN_TXELEMENT_SIZE_INVALID regfile_env = 0xFF"
  "MCAN_TXELEMENT_DATA_WORD regfile_env = 2"
  by (simp_all add: regfile_env_def mcan_env_def)

lemma wait_first_poll:
  "0 < unat t \<Longrightarrow> fst (hw_read E r (dev w)) AND msk \<noteq> 0 \<Longrightarrow>
   waitForRegisterWithTimeout E r msk t w = (True, snd (reg_read E r w))"
  by (simp add: waitForRegisterWithTimeout_def waitForRegister_loop.simps [of _ _ _ _ 0]
      reg_read_eq)

lemma fst_setTxBuffer:
  "fst (setTxBuffer E config w) =
     (if TxBufferConfig_isEnabled (Config_txBuffer config) then
        (if (ucast (decodeTxElementSizeInBytes E
                (TxBufferConfig_elementSize (Config_txBuffer config))) :: u32)
              = MCAN_TXELEMENT_SIZE_INVALID E then Some False
         else if \<not> (unat (TxBufferConfig_bufferSize (Config_txBuffer config))
                      + unat (TxBufferConfig_queueSize (Config_txBuffer config)) \<le> 32)
         then None else Some True)
      else Some True)"
  by (simp add: setTxBuffer_def Let_def)

lemma fst_setConfig_regions:
  "fst (setConfig_regions E config w) =
     (case fst (setTxBuffer E config w) of
        None \<Rightarrow> Aborted
      | Some False \<Rightarrow> Failed Mcan_ErrorCode_ElementSizeInvalid
      | Some True \<Rightarrow> Success)"
proof -
  let ?w7 = "setRxBuffer E config (setRxFifo1 E config (setRxFifo0 E config
            (setExtendedIdFiltering E config (setStandardIdFiltering E config
              (setTimeout E (Config_timeout config) (setTimestamp E config w))))))"
  have "fst (setTxBuffer E config ?w7) = fst (setTxBuffer E config w)"
    by (simp only: fst_setTxBuffer)
  then show ?thesis
    by (cases "setTxBuffer E config ?w7")
       (auto simp: setConfig_regions_def Let_def returnError_def split: option.splits bool.splits)
qed

text \<open>The Tx descriptor after the region steps have succeeded with the Tx buffer enabled.\<close>

lemma setConfig_regions_tx:
  assumes ok: "fst (setConfig_regions E config w) = Success"
    and en: "TxBufferConfig_isEnabled (Config_txBuffer config)"
  shows "tx (mcan (snd (setConfig_regions E config w))) =
           \<lparr>Tx_bufferAddress = TxBufferConfig_startAddress (Config_txBuffer config),
            Tx_bufferSize = TxBufferConfig_bufferSize (Config_txBuffer config),
            Tx_queueAddress =
              TxBufferConfig_startAddress (Config_txBuffer config)
                + 4 * ((ucast (decodeTxElementSizeInBytes E
                          (TxBufferConfig_elementSize (Config_txBuffer config)))
                        * ucast (TxBufferConfig_bufferSize (Config_txBuffer config))) div 4),
            Tx_queueSize = TxBufferConfig_queueSize (Config_txBuffer config),
            Tx_elementSize = decodeTxElementSizeInBytes E
                          (TxBufferConfig_elementSize (Config_txBuffer config))\<rparr>
       \<and> (ucast (decodeTxElementSizeInBytes E
                (TxBufferConfig_elementSize (Config_txBuffer config))) :: u32)
              \<noteq> MCAN_TXELEMENT_SIZE_INVALID E"
proof -
  let ?w7 = "setRxBuffer E config (setRxFifo1 E config (setRxFifo0 E config
            (setExtendedIdFiltering E config (setStandardIdFiltering E config
              (setTimeout E (Config_timeout config) (setTimestamp E config w))))))"
  let ?w8 = "snd (setTxBuffer E config ?w7)"
  from ok have t: "fst (setTxBuffer E config w) = Some True"
    by (simp add: fst_setConfig_regions split: option.splits bool.splits)
  then have valid: "(ucast (decodeTxElementSizeInBytes E
                (TxBufferConfig_elementSize (Config_txBuffer config))) :: u32)
              \<noteq> MCAN_TXELEMENT_SIZE_INVALID E"
    and fits: "unat (TxBufferConfig_bufferSize (Config_txBuffer config))
                 + unat (TxBufferConfig_queueSize (Config_txBuffer config)) \<le> 32"
    using en by (auto simp: fst_setTxBuffer split: if_splits)
  have t7: "fst (setTxBuffer E config ?w7) = Some True"
    using t by (simp only: fst_setTxBuffer)
  have tx8: "tx (mcan ?w8) =
           \<lparr>Tx_bufferAddress = TxBufferConfig_startAddress (Config_txBuffer config),
            Tx_bufferSize = TxBufferConfig_bufferSize (Config_txBuffer config),
            Tx_queueAddress =
              TxBufferConfig_startAddress (Config_txBuffer config)
                + 4 * ((ucast (decodeTxElementSizeInBytes E
                          (TxBufferConfig_elementSize (Config_txBuffer config)))
                        * ucast (TxBufferConfig_bufferSize (Config_txBuffer config))) div 4),
            Tx_queueSize = TxBufferConfig_queueSize (Config_txBuffer config),
            Tx_elementSize = decodeTxElementSizeInBytes E
                          (TxBufferConfig_elementSize (Config_txBuffer config))\<rparr>"
    using en valid fits by (simp add: setTxBuffer_def Let_def)
  let ?w12 = "reg_and E CCCR (NOT (MASK E ''MCAN_CCCR_INIT''))
                (reg_write E XIDAM (MASK E ''MCAN_XIDAM_EIDM'')
                  (reg_write E RWD (BIT_FIELD_VALUE E ''MCAN_RWD_WDC'' (ucast (Config_wdtCounter config)))
                    (setInterrupts E config (setTxEventFifo E config ?w8))))"
  have "config_step UNIV ?w8 ?w12"
    by (intro step_intros step_setInterrupts step_setTxEventFifo config_step_refl) simp_all
  then have "tx (mcan ?w12) = tx (mcan ?w8)" by (simp add: config_step_def)
  moreover have "snd (setConfig_regions E config w) = ?w12"
    using t7 by (cases "setTxBuffer E config ?w7")
      (simp add: setConfig_regions_def Let_def)
  ultimately show ?thesis using tx8 valid by simp
qed

lemma Mcan_setConfig_Success_regions:
  "fst (Mcan_setConfig E config t w) = Success \<Longrightarrow>
   \<exists>w'. Mcan_setConfig E config t w = setConfig_regions E config w'"
  by (auto simp: Mcan_setConfig_def Let_def case_prod_unfold andThen_cases returnError_def
      split: if_splits)

lemma decodeElementSizeInBytes_aligned:
  "x \<noteq> Mcan_ElementSize_Invalid \<Longrightarrow> 4 dvd unat (decodeElementSizeInBytes x)"
  by (cases x) (simp_all add: Mcan_DataLength_defs)

lemma decodeTxElementSizeInBytes_aligned:
  "x \<noteq> Mcan_ElementSize_Invalid \<Longrightarrow> 4 dvd unat (decodeTxElementSizeInBytes L x)"
  by (simp add: decodeTxElementSizeInBytes_def dvd4_offset decodeElementSizeInBytes_aligned)

lemma example_config_Success:
  "fst (Mcan_setConfig regfile_env example_config 10 (init_world zero_regs)) = Success"
  by (simp add: Mcan_setConfig_def Let_def wait_first_poll regfile_INIT reg_write_def
      setMode_def setNominalTiming_def fst_setConfig_regions fst_setTxBuffer
      example_config_def regfile_consts decodeTxElementSizeInBytes_def Mcan_DataLength_defs)

lemma oversized_disabled_config_Success:
  "fst (Mcan_setConfig regfile_env oversized_disabled_config 10 (init_world zero_regs)) = Success"
  by (simp add: Mcan_setConfig_def Let_def wait_first_poll regfile_INIT reg_write_def
      setMode_def setNominalTiming_def fst_setConfig_regions fst_setTxBuffer
      oversized_disabled_config_def oversized_config_def example_config_def)

lemmas config_defs =
  Mcan_setConfig_def setConfig_regions_def setMsgRamBaseAddress_def setMode_def
  setNominalTiming_def setTimestamp_def setTimeout_def setStandardIdFiltering_def
  setExtendedIdFiltering_def setRxFifo0_def setRxFifo1_def setRxBuffer_def setTxBuffer_def
  SET_FIELD_VALUE_def setValueAtOffset_def reg_or_def reg_and_def

text \<open>
  C8. After a successful \<open>Mcan_setConfig\<close> with the Tx buffer/queue enabled, the recorded
  Tx queue address is the recorded Tx buffer address plus the number of dedicated buffers
  times the recorded element size in bytes, the element size being the decoded size of
  the configured selector. The constant \<^verbatim>\<open>MCAN_TXELEMENT_SIZE_INVALID\<close> of the absent header
  is a parameter: the statement is for a legal selector, or for a header whose constant is
  the decoded size of the invalid selector (then success implies a legal selector).
\<close>

theorem C8_tx_queue_address:
  assumes ok: "fst (Mcan_setConfig E config t w) = Success"
    and en: "TxBufferConfig_isEnabled (Config_txBuffer config)"
    and legal: "TxBufferConfig_elementSize (Config_txBuffer config) \<noteq> Mcan_ElementSize_Invalid
                \<or> MCAN_TXELEMENT_SIZE_INVALID E
                    = ucast (decodeTxElementSizeInBytes E Mcan_ElementSize_Invalid)"
  shows "Tx_queueAddress (tx (mcan (snd (Mcan_setConfig E config t w))))
           = Tx_bufferAddress (tx (mcan (snd (Mcan_setConfig E config t w))))
               + ucast (Tx_bufferSize (tx (mcan (snd (Mcan_setConfig E config t w)))))
                 * ucast (Tx_elementSize (tx (mcan (snd (Mcan_setConfig E config t w)))))
       \<and> Tx_elementSize (tx (mcan (snd (Mcan_setConfig E config t w))))
           = decodeTxElementSizeInBytes E (TxBufferConfig_elementSize (Config_txBuffer config))
       \<and> Tx_bufferAddress (tx (mcan (snd (Mcan_setConfig E config t w))))
           = TxBufferConfig_startAddress (Config_txBuffer config)
       \<and> Tx_bufferSize (tx (mcan (snd (Mcan_setConfig E config t w))))
           = TxBufferConfig_bufferSize (Config_txBuffer config)"
proof -
  from Mcan_setConfig_Success_regions [OF ok]
  obtain w' where eq: "Mcan_setConfig E config t w = setConfig_regions E config w'" by blast
  with ok have ok': "fst (setConfig_regions E config w') = Success" by simp
  note r = setConfig_regions_tx [OF ok' en]
  from r legal have "TxBufferConfig_elementSize (Config_txBuffer config) \<noteq> Mcan_ElementSize_Invalid"
    by auto
  then have al: "4 dvd unat (decodeTxElementSizeInBytes E
                   (TxBufferConfig_elementSize (Config_txBuffer config)))"
    by (rule decodeTxElementSizeInBytes_aligned)
  show ?thesis
    using r by (simp add: eq aligned_product [OF al])
qed

theorem C8_tx_queue_address_witness:
  "fst (Mcan_setConfig regfile_env example_config 10 (init_world zero_regs)) = Success
   \<and> TxBufferConfig_isEnabled (Config_txBuffer example_config)
   \<and> TxBufferConfig_elementSize (Config_txBuffer example_config) \<noteq> Mcan_ElementSize_Invalid
   \<and> Tx_queueAddress (tx (mcan (snd
        (Mcan_setConfig regfile_env example_config 10 (init_world zero_regs)))))
       = Tx_bufferAddress (tx (mcan (snd
           (Mcan_setConfig regfile_env example_config 10 (init_world zero_regs)))))
         + ucast (Tx_bufferSize (tx (mcan (snd
             (Mcan_setConfig regfile_env example_config 10 (init_world zero_regs))))))
           * ucast (Tx_elementSize (tx (mcan (snd
               (Mcan_setConfig regfile_env example_config 10 (init_world zero_regs))))))"
proof -
  have h2: "TxBufferConfig_isEnabled (Config_txBuffer example_config)"
    by (simp add: example_config_def)
  have h3: "TxBufferConfig_elementSize (Config_txBuffer example_config) \<noteq> Mcan_ElementSize_Invalid"
    by (simp add: example_config_def)
  from example_config_Success h2 h3
    C8_tx_queue_address [OF example_config_Success h2 disjI1 [OF h3]]
  show ?thesis by simp
qed

text \<open>
  C2, as the code has it. For every configuration with the Tx buffer enabled in which
  \<open>bufferSize + queueSize > 32\<close>, \<open>Mcan_setConfig\<close> does not succeed, never writes the Tx
  buffer/queue configuration registers TXBC and TXESC and leaves the Tx descriptor as it
  was: \<open>setTxBuffer\<close> returns \<^verbatim>\<open>false\<close> for an invalid element size and otherwise stops in its
  assertion, before its first write. Registers programmed earlier in the sequence have
  been written by then. Assertions are taken as compiled in.
\<close>

theorem C2_oversized_tx_area:
  assumes en: "TxBufferConfig_isEnabled (Config_txBuffer config)"
    and over: "unat (TxBufferConfig_bufferSize (Config_txBuffer config))
                 + unat (TxBufferConfig_queueSize (Config_txBuffer config)) > 32"
  shows "fst (Mcan_setConfig E config t w) \<noteq> Success
       \<and> TXBC \<notin> set (written_regs (events_since w (snd (Mcan_setConfig E config t w))))
       \<and> TXESC \<notin> set (written_regs (events_since w (snd (Mcan_setConfig E config t w))))
       \<and> tx (mcan (snd (Mcan_setConfig E config t w))) = tx (mcan w)
       \<and> setTxBuffer E config w =
           (if (ucast (decodeTxElementSizeInBytes E
                  (TxBufferConfig_elementSize (Config_txBuffer config))) :: u32)
                 = MCAN_TXELEMENT_SIZE_INVALID E
            then Some False else None, w)"
proof -
  note s = Mcan_setConfig_oversized(2) [OF en over, where E = E and t = t and w = w]
  from config_step_events [OF s]
  have "TXBC \<notin> set (written_regs (events_since w (snd (Mcan_setConfig E config t w))))"
    and "TXESC \<notin> set (written_regs (events_since w (snd (Mcan_setConfig E config t w))))"
    by auto
  moreover from s have "tx (mcan (snd (Mcan_setConfig E config t w))) = tx (mcan w)"
    by (simp add: config_step_def)
  ultimately show ?thesis
    using Mcan_setConfig_oversized(1) [OF en over, where E = E and t = t and w = w]
      setTxBuffer_oversized [OF en over, where E = E and w = w]
    by simp
qed

theorem C2_oversized_tx_area_witness:
  "TxBufferConfig_isEnabled (Config_txBuffer oversized_config)
   \<and> unat (TxBufferConfig_bufferSize (Config_txBuffer oversized_config))
        + unat (TxBufferConfig_queueSize (Config_txBuffer oversized_config)) > 32
   \<and> fst (Mcan_setConfig regfile_env oversized_config 10 (init_world zero_regs)) \<noteq> Success
   \<and> TXBC \<notin> set (written_regs (events_since (init_world zero_regs)
        (snd (Mcan_setConfig regfile_env oversized_config 10 (init_world zero_regs)))))
   \<and> TXESC \<notin> set (written_regs (events_since (init_world zero_regs)
        (snd (Mcan_setConfig regfile_env oversized_config 10 (init_world zero_regs)))))"
proof -
  have h1: "TxBufferConfig_isEnabled (Config_txBuffer oversized_config)"
    by (simp add: oversized_config_def example_config_def)
  have h2: "unat (TxBufferConfig_bufferSize (Config_txBuffer oversized_config))
        + unat (TxBufferConfig_queueSize (Config_txBuffer oversized_config)) > 32"
    by (simp add: oversized_config_def example_config_def)
  from h1 h2 C2_oversized_tx_area [OF h1 h2, where E = regfile_env and t = 10
      and w = "init_world zero_regs"]
  show ?thesis by simp
qed

text \<open>
  C2 as stated fails: with 32 dedicated buffers and one queue slot the call runs into the
  assertion of \<open>setTxBuffer\<close> only after twenty register writes, region registers among
  them; and with the Tx buffer disabled the same sizes are accepted.
\<close>

theorem C2_setConfig_rejects_before_write_counterexample:
  "unat (TxBufferConfig_bufferSize (Config_txBuffer oversized_config))
     + unat (TxBufferConfig_queueSize (Config_txBuffer oversized_config)) > 32
   \<and> fst (Mcan_setConfig regfile_env oversized_config 10 (init_world zero_regs)) = Aborted
   \<and> written_regs (events_since (init_world zero_regs)
        (snd (Mcan_setConfig regfile_env oversized_config 10 (init_world zero_regs))))
       = [CANDMABA, CCCR, CCCR, CCCR, GFC, NBTP, TSCC, TSCV, TOCC, GFC, SIDFC, GFC, XIDFC,
          RXESC, RXF0C, RXESC, RXESC, RXF1C, RXBC, RXESC]
   \<and> unat (TxBufferConfig_bufferSize (Config_txBuffer oversized_disabled_config))
        + unat (TxBufferConfig_queueSize (Config_txBuffer oversized_disabled_config)) > 32
   \<and> fst (Mcan_setConfig regfile_env oversized_disabled_config 10 (init_world zero_regs))
       = Success"
  using oversized_disabled_config_Success
  by (simp add: config_defs Let_def wait_first_poll regfile_INIT reg_write_def reg_read_eq
      events_since_def init_world_def oversized_config_def oversized_disabled_config_def
      example_config_def regfile_consts
      decodeTxElementSizeInBytes_def Mcan_DataLength_defs returnError_def)

end
